theory Spec2Isabelle
  imports Complex_Main
begin

section \<open>Numbers and failures\<close>

text \<open>
  The haematocrit engine of microBlooM computes with float64 scalars. Two models of the
  scalar operations are used.
  \<^item> In the first the scalars are real numbers with exact arithmetic, and the decimal
    literals of the source (\<open>1E-36\<close>, \<open>0.99\<close>, \<open>1.12\<close>, ...) are the rationals they
    denote. The pass over the network, the handlers and the checker are modelled this way,
    and so is the phase-separation law where a property is a matter of its branches and
    expressions.
  \<^item> In the second every literal and the result of every operation of the
    phase-separation law is rounded. It is used where a property depends on rounding.

  Overflow, infinities and \<open>nan\<close> are in neither model.

  A result is \<open>Inr v\<close> when the source returns \<open>v\<close> and \<open>Inl e\<close> when it does
  not return a finite value:
  \<^item> \<open>NonFinite\<close>: a division by zero. Python floats raise \<open>ZeroDivisionError\<close>
    there; numpy scalars go on with \<open>inf\<close> or \<open>nan\<close>, values the real numbers do
    not have, and the model does not follow them.
  \<^item> \<open>ValueError\<close>: \<open>math.log\<close> of a non-positive number, and the store of a
    tuple into one cell of a float array.
  \<^item> \<open>UnboundLocalError\<close>: a local variable read before any assignment.
  \<^item> \<open>IndexError\<close>: an array read or written out of range.
  \<^item> \<open>TypeError\<close>: arithmetic on \<open>None\<close>, and \<open>sys.exit\<close> called with two
    arguments.
  \<^item> \<open>SystemExit\<close>: \<open>sys.exit()\<close>.
\<close>

datatype error =
  NonFinite | ValueError | UnboundLocalError | IndexError | TypeError | SystemExit

definition ebind :: "error + 'a \<Rightarrow> ('a \<Rightarrow> error + 'b) \<Rightarrow> error + 'b" where
  "ebind m f = (case m of Inl e \<Rightarrow> Inl e | Inr v \<Rightarrow> f v)"

definition fdiv :: "real \<Rightarrow> real \<Rightarrow> error + real" where
  "fdiv a b = (if b = 0 then Inl NonFinite else Inr (a / b))"

section \<open>The phase-separation law\<close>

text \<open>\<open>_logit(x) = math.log(x / (1 - x))\<close>.\<close>

definition logit :: "real \<Rightarrow> error + real" where
  "logit x = ebind (fdiv x (1 - x)) (\<lambda>r. if r \<le> 0 then Inl ValueError else Inr (ln r))"

text \<open>The calibration constants set by the constructor of \<open>DischargeHaematocrit\<close>.\<close>

definition x_o_init :: real where "x_o_init = 112 / 100"
definition A_o_init :: real where "A_o_init = 1547 / 100"
definition B_o_init :: real where "B_o_init = 813 / 100"

text \<open>
  \<open>non_dimentional_param\<close>: the three diameters are converted to micrometres, then
  \<open>x_0\<close>, \<open>A\<close> and \<open>B\<close> are computed in this order.
\<close>

definition non_dimentional_param ::
  "real \<Rightarrow> real \<Rightarrow> real \<Rightarrow> real \<Rightarrow> error + (real \<times> real \<times> real)" where
  "non_dimentional_param hemat_par diam_par0 diam_a0 diam_b0 =
     (let diam_a = diam_a0 * 10 ^ 6; diam_b = diam_b0 * 10 ^ 6; diam_par = diam_par0 * 10 ^ 6 in
      ebind (fdiv (x_o_init * (1 - hemat_par)) diam_par) (\<lambda>x_0.
      ebind (fdiv (diam_a ^ 2 - diam_b ^ 2) (diam_a ^ 2 + diam_b ^ 2)) (\<lambda>r.
      ebind (fdiv ((- A_o_init) * r * (1 - hemat_par)) diam_par) (\<lambda>A.
      ebind (fdiv (B_o_init * (1 - hemat_par)) diam_par) (\<lambda>b.
      Inr (x_0, A, 1 + b))))))"

text \<open>
  \<open>get_erythrocyte_fraction\<close>, lines 280 to 290: the three-region law for the
  fractional RBC shares of the daughters a and b. The chain \<open>if / elif / elif\<close> has no
  final \<open>else\<close>: were no condition true, the shares would be unbound at their first
  use.
\<close>

definition fractional_qRBC :: "real \<Rightarrow> real \<Rightarrow> real \<Rightarrow> real \<Rightarrow> error + (real \<times> real)" where
  "fractional_qRBC fractional_flow_a x_0 A B =
     (if fractional_flow_a \<le> x_0 then Inr (0, 1)
      else if x_0 < fractional_flow_a \<and> fractional_flow_a < 1 - x_0 then
        ebind (fdiv (fractional_flow_a - x_0) (1 - x_0)) (\<lambda>internal_logit.
        ebind (logit internal_logit) (\<lambda>l.
        let logit_result = A + B * l in
        ebind (fdiv (exp logit_result) (1 + exp logit_result)) (\<lambda>fractional_qRBCa.
        Inr (fractional_qRBCa, 1 - fractional_qRBCa))))
      else if fractional_flow_a \<ge> 1 - x_0 then Inr (1, 0)
      else Inl UnboundLocalError)"

text \<open>Lines 292 to 301: shares to haematocrits, with the guard on a vanishing flow.\<close>

definition hemat_of_shares ::
  "real \<Rightarrow> real \<Rightarrow> real \<Rightarrow> real \<Rightarrow> real \<Rightarrow> error + (real \<times> real)" where
  "hemat_of_shares fractional_qRBCa fractional_qRBCb qRBCp flow_a flow_b =
     (if flow_a < 1 / 10 ^ 36 then
        ebind (fdiv (fractional_qRBCb * qRBCp) flow_b) (\<lambda>hemat_b. Inr (0, hemat_b))
      else if flow_b < 1 / 10 ^ 36 then
        ebind (fdiv (fractional_qRBCa * qRBCp) flow_a) (\<lambda>hemat_a. Inr (hemat_a, 0))
      else
        ebind (fdiv (fractional_qRBCa * qRBCp) flow_a) (\<lambda>hemat_a.
        ebind (fdiv (fractional_qRBCb * qRBCp) flow_b) (\<lambda>hemat_b.
        Inr (hemat_a, hemat_b))))"

text \<open>
  Lines 303 to 323: the saturation branch. Daughter b is tested first; daughter a is
  tested only when b is below the threshold.
\<close>

definition threshold :: real where "threshold = 99 / 100"

definition saturation ::
  "real \<Rightarrow> real \<Rightarrow> real \<Rightarrow> real \<Rightarrow> real \<Rightarrow> real \<Rightarrow> real \<Rightarrow> error + (real \<times> real)" where
  "saturation hemat_a hemat_b fractional_qRBCa fractional_qRBCb qRBCp flow_a flow_b =
     (if hemat_b \<ge> threshold then
        ebind (fdiv ((hemat_b - threshold) * flow_b) qRBCp) (\<lambda>surplus.
        ebind (fdiv ((fractional_qRBCa + surplus) * qRBCp) flow_a) (\<lambda>hemat_a'.
        ebind (fdiv ((fractional_qRBCb - surplus) * qRBCp) flow_b) (\<lambda>hemat_b'.
        Inr (hemat_a', hemat_b'))))
      else if hemat_a \<ge> threshold then
        ebind (fdiv ((hemat_a - threshold) * flow_a) qRBCp) (\<lambda>surplus.
        ebind (fdiv ((fractional_qRBCa - surplus) * qRBCp) flow_a) (\<lambda>hemat_a'.
        ebind (fdiv ((fractional_qRBCb + surplus) * qRBCp) flow_b) (\<lambda>hemat_b'.
        Inr (hemat_a', hemat_b'))))
      else Inr (hemat_a, hemat_b))"

text \<open>
  Lines 273 to 290 of \<open>get_erythrocyte_fraction\<close>: the fractional flows, the
  non-dimensional parameters and the shares of the three-region law.
\<close>

definition rbc_shares ::
  "real \<Rightarrow> real \<Rightarrow> real \<Rightarrow> real \<Rightarrow> real \<Rightarrow> real \<Rightarrow> error + (real \<times> real)" where
  "rbc_shares hemat_par diam_par diam_a diam_b flow_a flow_b =
     ebind (fdiv flow_a (flow_a + flow_b)) (\<lambda>fractional_flow_a.
     ebind (fdiv flow_b (flow_a + flow_b)) (\<lambda>fractional_flow_b.
     ebind (non_dimentional_param hemat_par diam_par diam_a diam_b) (\<lambda>(x_0, A, B).
     fractional_qRBC fractional_flow_a x_0 A B)))"

text \<open>
  \<open>get_erythrocyte_fraction\<close> as a whole. The five lists it appends to feed the plots
  only and are left out. The last step is the guard of lines 333 to 335.
\<close>

definition get_erythrocyte_fraction ::
  "real \<Rightarrow> real \<Rightarrow> real \<Rightarrow> real \<Rightarrow> real \<Rightarrow> real \<Rightarrow> real \<Rightarrow> error + (real \<times> real)" where
  "get_erythrocyte_fraction hemat_par diam_par diam_a diam_b flow_parent flow_a flow_b =
     ebind (rbc_shares hemat_par diam_par diam_a diam_b flow_a flow_b)
       (\<lambda>(fractional_qRBCa, fractional_qRBCb).
     let qRBCp = hemat_par * flow_parent in
     ebind (hemat_of_shares fractional_qRBCa fractional_qRBCb qRBCp flow_a flow_b)
       (\<lambda>(hemat_a, hemat_b).
     ebind (saturation hemat_a hemat_b fractional_qRBCa fractional_qRBCb qRBCp flow_a flow_b)
       (\<lambda>(hemat_a, hemat_b).
     if hemat_a \<ge> 1 \<or> hemat_b \<ge> 1 then Inl SystemExit else Inr (hemat_a, hemat_b))))"

section \<open>The phase-separation law in rounded arithmetic\<close>

text \<open>
  An arithmetic gives the rounding \<open>rnd\<close> applied to a decimal literal and to the exact
  result of an addition, a subtraction, a multiplication or a division, and the three
  calls of the C library made by the law: \<open>pow(x, 2)\<close>, \<open>pow(math.e, x)\<close> and
  \<open>math.log(x)\<close>.
\<close>

record arithmetic =
  rnd :: "real \<Rightarrow> real"
  pow_2 :: "real \<Rightarrow> real"
  pow_e :: "real \<Rightarrow> real"
  log_e :: "real \<Rightarrow> real"

text \<open>Exact arithmetic: nothing is rounded.\<close>

definition exact :: arithmetic where
  "exact = \<lparr>rnd = (\<lambda>x. x), pow_2 = (\<lambda>x. x ^ 2), pow_e = exp, log_e = ln\<rparr>"

text \<open>
  binary64 with the default rounding, to the nearest number and to the even one of two
  nearest: a number with \<open>2 ^ e \<le> \<bar>x\<bar> < 2 ^ (e + 1)\<close> is rounded to a multiple of
  \<open>2 ^ (e - 52)\<close>. \<open>rne\<close> rounds to an integer. The exponent \<open>e\<close> is not bounded:
  overflow and the subnormal numbers are not modelled.
\<close>

definition rne :: "real \<Rightarrow> int" where
  "rne y = (let f = \<lfloor>y\<rfloor> in
            if y - of_int f < 1 / 2 then f
            else if 1 / 2 < y - of_int f then f + 1
            else if even f then f else f + 1)"

definition f64 :: "real \<Rightarrow> real" where
  "f64 x = (if x = 0 then 0
            else (let ulp = 2 powi (\<lfloor>log 2 \<bar>x\<bar>\<rfloor> - 52) in of_int (rne (x / ulp)) * ulp))"

text \<open>binary64 arithmetic, the three library calls taken as correctly rounded.\<close>

definition float64 :: arithmetic where
  "float64 = \<lparr>rnd = f64, pow_2 = (\<lambda>x. f64 (x ^ 2)), pow_e = (\<lambda>x. f64 (exp x)),
               log_e = (\<lambda>x. f64 (ln x))\<rparr>"

text \<open>
  What the error bounds below ask of an arithmetic: a rounded result differs from the
  exact one by at most \<open>2 ^ -53\<close> of its magnitude, and \<open>pow(math.e, x)\<close> is not
  negative. Nothing is asked of \<open>pow(x, 2)\<close> and \<open>math.log\<close>.
\<close>

definition accurate :: "arithmetic \<Rightarrow> bool" where
  "accurate ar \<longleftrightarrow> (\<forall>x. \<bar>rnd ar x - x\<bar> \<le> \<bar>x\<bar> / 2 ^ 53) \<and> (\<forall>x. 0 \<le> pow_e ar x)"

text \<open>
  The law once more, operation by operation as in the source, with each literal and each
  result rounded. The product of a float with the integer share 0 or 1 of the outer regions
  is exact in binary64, where rounding a float once more changes nothing. A division by
  zero ends the call as before.
\<close>

definition fdiv_fl :: "arithmetic \<Rightarrow> real \<Rightarrow> real \<Rightarrow> error + real" where
  "fdiv_fl ar a b = (if b = 0 then Inl NonFinite else Inr (rnd ar (a / b)))"

definition logit_fl :: "arithmetic \<Rightarrow> real \<Rightarrow> error + real" where
  "logit_fl ar x =
     ebind (fdiv_fl ar x (rnd ar (1 - x))) (\<lambda>r. if r \<le> 0 then Inl ValueError else Inr (log_e ar r))"

definition non_dimentional_param_fl ::
  "arithmetic \<Rightarrow> real \<Rightarrow> real \<Rightarrow> real \<Rightarrow> real \<Rightarrow> error + (real \<times> real \<times> real)" where
  "non_dimentional_param_fl ar hemat_par diam_par0 diam_a0 diam_b0 =
     (let diam_a = rnd ar (diam_a0 * 10 ^ 6); diam_b = rnd ar (diam_b0 * 10 ^ 6);
          diam_par = rnd ar (diam_par0 * 10 ^ 6) in
      ebind (fdiv_fl ar (rnd ar (rnd ar x_o_init * rnd ar (1 - hemat_par))) diam_par) (\<lambda>x_0.
      ebind (fdiv_fl ar (rnd ar (pow_2 ar diam_a - pow_2 ar diam_b))
               (rnd ar (pow_2 ar diam_a + pow_2 ar diam_b))) (\<lambda>r.
      ebind (fdiv_fl ar (rnd ar (rnd ar ((- rnd ar A_o_init) * r) * rnd ar (1 - hemat_par))) diam_par)
        (\<lambda>A.
      ebind (fdiv_fl ar (rnd ar (rnd ar B_o_init * rnd ar (1 - hemat_par))) diam_par) (\<lambda>b.
      Inr (x_0, A, rnd ar (1 + b)))))))"

definition fractional_qRBC_fl ::
  "arithmetic \<Rightarrow> real \<Rightarrow> real \<Rightarrow> real \<Rightarrow> real \<Rightarrow> error + (real \<times> real)" where
  "fractional_qRBC_fl ar fractional_flow_a x_0 A B =
     (if fractional_flow_a \<le> x_0 then Inr (0, 1)
      else if x_0 < fractional_flow_a \<and> fractional_flow_a < rnd ar (1 - x_0) then
        ebind (fdiv_fl ar (rnd ar (fractional_flow_a - x_0)) (rnd ar (1 - x_0))) (\<lambda>internal_logit.
        ebind (logit_fl ar internal_logit) (\<lambda>l.
        let logit_result = rnd ar (A + rnd ar (B * l)) in
        ebind (fdiv_fl ar (pow_e ar logit_result) (rnd ar (1 + pow_e ar logit_result)))
          (\<lambda>fractional_qRBCa.
        Inr (fractional_qRBCa, rnd ar (1 - fractional_qRBCa)))))
      else if fractional_flow_a \<ge> rnd ar (1 - x_0) then Inr (1, 0)
      else Inl UnboundLocalError)"

definition hemat_of_shares_fl ::
  "arithmetic \<Rightarrow> real \<Rightarrow> real \<Rightarrow> real \<Rightarrow> real \<Rightarrow> real \<Rightarrow> error + (real \<times> real)" where
  "hemat_of_shares_fl ar fractional_qRBCa fractional_qRBCb qRBCp flow_a flow_b =
     (if flow_a < rnd ar (1 / 10 ^ 36) then
        ebind (fdiv_fl ar (rnd ar (fractional_qRBCb * qRBCp)) flow_b) (\<lambda>hemat_b. Inr (0, hemat_b))
      else if flow_b < rnd ar (1 / 10 ^ 36) then
        ebind (fdiv_fl ar (rnd ar (fractional_qRBCa * qRBCp)) flow_a) (\<lambda>hemat_a. Inr (hemat_a, 0))
      else
        ebind (fdiv_fl ar (rnd ar (fractional_qRBCa * qRBCp)) flow_a) (\<lambda>hemat_a.
        ebind (fdiv_fl ar (rnd ar (fractional_qRBCb * qRBCp)) flow_b) (\<lambda>hemat_b.
        Inr (hemat_a, hemat_b))))"

definition saturation_fl ::
  "arithmetic \<Rightarrow> real \<Rightarrow> real \<Rightarrow> real \<Rightarrow> real \<Rightarrow> real \<Rightarrow> real \<Rightarrow> real \<Rightarrow> error + (real \<times> real)" where
  "saturation_fl ar hemat_a hemat_b fractional_qRBCa fractional_qRBCb qRBCp flow_a flow_b =
     (if hemat_b \<ge> rnd ar (99 / 100) then
        ebind (fdiv_fl ar (rnd ar (rnd ar (hemat_b - rnd ar (99 / 100)) * flow_b)) qRBCp) (\<lambda>surplus.
        ebind (fdiv_fl ar (rnd ar (rnd ar (fractional_qRBCa + surplus) * qRBCp)) flow_a) (\<lambda>hemat_a'.
        ebind (fdiv_fl ar (rnd ar (rnd ar (fractional_qRBCb - surplus) * qRBCp)) flow_b) (\<lambda>hemat_b'.
        Inr (hemat_a', hemat_b'))))
      else if hemat_a \<ge> rnd ar (99 / 100) then
        ebind (fdiv_fl ar (rnd ar (rnd ar (hemat_a - rnd ar (99 / 100)) * flow_a)) qRBCp) (\<lambda>surplus.
        ebind (fdiv_fl ar (rnd ar (rnd ar (fractional_qRBCa - surplus) * qRBCp)) flow_a) (\<lambda>hemat_a'.
        ebind (fdiv_fl ar (rnd ar (rnd ar (fractional_qRBCb + surplus) * qRBCp)) flow_b) (\<lambda>hemat_b'.
        Inr (hemat_a', hemat_b'))))
      else Inr (hemat_a, hemat_b))"

definition rbc_shares_fl ::
  "arithmetic \<Rightarrow> real \<Rightarrow> real \<Rightarrow> real \<Rightarrow> real \<Rightarrow> real \<Rightarrow> real \<Rightarrow> error + (real \<times> real)" where
  "rbc_shares_fl ar hemat_par diam_par diam_a diam_b flow_a flow_b =
     ebind (fdiv_fl ar flow_a (rnd ar (flow_a + flow_b))) (\<lambda>fractional_flow_a.
     ebind (fdiv_fl ar flow_b (rnd ar (flow_a + flow_b))) (\<lambda>fractional_flow_b.
     ebind (non_dimentional_param_fl ar hemat_par diam_par diam_a diam_b) (\<lambda>(x_0, A, B).
     fractional_qRBC_fl ar fractional_flow_a x_0 A B)))"

definition get_erythrocyte_fraction_fl ::
  "arithmetic \<Rightarrow> real \<Rightarrow> real \<Rightarrow> real \<Rightarrow> real \<Rightarrow> real \<Rightarrow> real \<Rightarrow> real \<Rightarrow> error + (real \<times> real)" where
  "get_erythrocyte_fraction_fl ar hemat_par diam_par diam_a diam_b flow_parent flow_a flow_b =
     ebind (rbc_shares_fl ar hemat_par diam_par diam_a diam_b flow_a flow_b)
       (\<lambda>(fractional_qRBCa, fractional_qRBCb).
     let qRBCp = rnd ar (hemat_par * flow_parent) in
     ebind (hemat_of_shares_fl ar fractional_qRBCa fractional_qRBCb qRBCp flow_a flow_b)
       (\<lambda>(hemat_a, hemat_b).
     ebind (saturation_fl ar hemat_a hemat_b fractional_qRBCa fractional_qRBCb qRBCp flow_a flow_b)
       (\<lambda>(hemat_a, hemat_b).
     if hemat_a \<ge> 1 \<or> hemat_b \<ge> 1 then Inl SystemExit else Inr (hemat_a, hemat_b))))"

section \<open>The mass-balance checker\<close>

text \<open>
  \<open>qRCS\<close> receives \<open>None\<close> in the positions a shape does not use; arithmetic on
  \<open>None\<close> raises \<open>TypeError\<close>.
\<close>

definition req :: "real option \<Rightarrow> error + real" where
  "req v = (case v of None \<Rightarrow> Inl TypeError | Some x \<Rightarrow> Inr x)"

definition radd :: "error + real \<Rightarrow> error + real \<Rightarrow> error + real" where
  "radd a b = ebind a (\<lambda>x. ebind b (\<lambda>y. Inr (x + y)))"

definition rmul :: "error + real \<Rightarrow> error + real \<Rightarrow> error + real" where
  "rmul a b = ebind a (\<lambda>x. ebind b (\<lambda>y. Inr (x * y)))"

definition tollerance :: real where "tollerance = 1 / 10 ^ 5"

text \<open>
  The body shared by the five cases of \<open>qRCS\<close>: \<open>RBCbalance\<close> starts at 1 and becomes
  0 only inside the two nested tests, the volumetric flows first, the RBC fluxes second.
\<close>

definition balance_test ::
  "error + real \<Rightarrow> error + real \<Rightarrow> error + real \<Rightarrow> error + real \<Rightarrow> error + nat" where
  "balance_test flow_in flow_out qRBC_p qRBC_d =
     ebind flow_in (\<lambda>fi. ebind flow_out (\<lambda>fo.
       if \<bar>fi - fo\<bar> \<le> tollerance then
         ebind qRBC_p (\<lambda>p. ebind qRBC_d (\<lambda>d.
           if \<bar>p - d\<bar> \<le> tollerance then Inr 0 else Inr 1))
       else Inr 1))"

definition qRCS ::
  "nat \<Rightarrow> real option \<Rightarrow> real option \<Rightarrow> real option \<Rightarrow> real option \<Rightarrow> real option \<Rightarrow> real option \<Rightarrow>
   real option \<Rightarrow> real option \<Rightarrow> real option \<Rightarrow> real option \<Rightarrow> real option \<Rightarrow> real option \<Rightarrow>
   error + nat" where
  "qRCS shape flow_a_par flow_b_par flow_c_par flow_a_d flow_b_d flow_c_d
        hemat_a_par hemat_b_par hemat_c_par hemat_a_d hemat_b_d hemat_c_d =
     (if shape = 1 then
        balance_test (req flow_a_par) (req flow_a_d)
          (rmul (req flow_a_par) (req hemat_a_par)) (rmul (req flow_a_d) (req hemat_a_d))
      else if shape = 2 then
        balance_test (req flow_a_par) (radd (req flow_a_d) (req flow_b_d))
          (rmul (req flow_a_par) (req hemat_a_par))
          (radd (rmul (req flow_a_d) (req hemat_a_d)) (rmul (req flow_b_d) (req hemat_b_d)))
      else if shape = 3 then
        balance_test (req flow_a_par) (radd (radd (req flow_a_d) (req flow_b_d)) (req flow_c_d))
          (rmul (req flow_a_par) (req hemat_a_par))
          (radd (radd (rmul (req flow_a_d) (req hemat_a_d)) (rmul (req flow_b_d) (req hemat_b_d)))
             (rmul (req flow_c_d) (req hemat_c_d)))
      else if shape = 4 then
        balance_test (radd (req flow_a_par) (req flow_b_par)) (req flow_a_d)
          (radd (rmul (req flow_a_par) (req hemat_a_par)) (rmul (req flow_b_par) (req hemat_b_par)))
          (rmul (req flow_a_d) (req hemat_a_d))
      else if shape = 5 then
        balance_test (radd (radd (req flow_a_par) (req flow_b_par)) (req flow_c_par)) (req flow_a_d)
          (radd (radd (rmul (req flow_a_par) (req hemat_a_par)) (rmul (req flow_b_par) (req hemat_b_par)))
             (rmul (req flow_c_par) (req hemat_c_par)))
          (rmul (req flow_a_d) (req hemat_a_d))
      else Inr 1)"

section \<open>The handlers\<close>

text \<open>
  Each handler returns the haematocrits and the updated imbalance count. The ratios that
  \<open>hematocrit_1_3\<close> appends to the plot lists are left out: on the numpy scalars that
  \<open>update_hd\<close> passes a zero denominator there does not raise and changes no result.
\<close>

definition hematocrit_1_1 :: "real \<Rightarrow> real \<Rightarrow> real \<Rightarrow> nat \<Rightarrow> error + (real \<times> nat)" where
  "hematocrit_1_1 hemat_parent flow_parent flow_daughter rbc_bal =
     (let hematocrit = hemat_parent in
      ebind (qRCS 1 (Some flow_parent) None None (Some flow_daughter) None None
               (Some hemat_parent) None None (Some hematocrit) None None)
        (\<lambda>r. Inr (hematocrit, rbc_bal + r)))"

definition hematocrit_1_3 ::
  "real \<Rightarrow> real \<Rightarrow> real \<Rightarrow> real \<Rightarrow> real \<Rightarrow> nat \<Rightarrow> error + (real \<times> real \<times> real \<times> nat)" where
  "hematocrit_1_3 flow_parent hemat_parent flow_daughter_a flow_daughter_b flow_daughter_c rbc_bal =
     ebind (qRCS 3 (Some flow_parent) None None
              (Some flow_daughter_a) (Some flow_daughter_b) (Some flow_daughter_c)
              (Some hemat_parent) None None
              (Some hemat_parent) (Some hemat_parent) (Some hemat_parent))
       (\<lambda>r. Inr (hemat_parent, hemat_parent, hemat_parent, rbc_bal + r))"

definition hematocrit_2_1 ::
  "real \<Rightarrow> real \<Rightarrow> real \<Rightarrow> real \<Rightarrow> real \<Rightarrow> nat \<Rightarrow> error + (real \<times> nat)" where
  "hematocrit_2_1 flow_parent_a flow_parent_b flow_daughter hemat_parent_a hemat_parent_b rbc_bal =
     ebind (fdiv (flow_parent_a * hemat_parent_a + flow_parent_b * hemat_parent_b)
              (flow_parent_a + flow_parent_b)) (\<lambda>hematocrit.
     ebind (qRCS 4 (Some flow_parent_a) (Some flow_parent_b) None (Some flow_daughter) None None
              (Some hemat_parent_a) (Some hemat_parent_b) None (Some hematocrit) None None)
       (\<lambda>r. Inr (hematocrit, rbc_bal + r)))"

definition hematocrit_2_2_aux ::
  "real \<Rightarrow> real \<Rightarrow> real \<Rightarrow> real \<Rightarrow> real \<Rightarrow> real \<Rightarrow> error + (real \<times> real \<times> real)" where
  "hematocrit_2_2_aux hemat_a hemat_b flow_a flow_b diameter_a diameter_b =
     (let diameter_parent = (diameter_a + diameter_b) / 2; flow_parent = flow_a + flow_b in
      ebind (fdiv (flow_a * hemat_a + flow_b * hemat_b) (flow_a + flow_b)) (\<lambda>hemat_parent.
      Inr (diameter_parent, flow_parent, hemat_parent)))"

definition hematocrit_1_2 ::
  "real \<Rightarrow> real \<Rightarrow> real \<Rightarrow> real \<Rightarrow> nat \<Rightarrow> real \<Rightarrow> real \<Rightarrow> real \<Rightarrow> error + (real \<times> real \<times> nat)" where
  "hematocrit_1_2 flow_parent hemat_parent flow_daughter_a flow_daughter_b rbc_bal
        diameter_parent diameter_a diameter_b =
     ebind (get_erythrocyte_fraction hemat_parent diameter_parent diameter_a diameter_b
              flow_parent flow_daughter_a flow_daughter_b) (\<lambda>(hematocrit_a, hematocrit_b).
     ebind (qRCS 2 (Some flow_parent) None None (Some flow_daughter_a) (Some flow_daughter_b) None
              (Some hemat_parent) None None (Some hematocrit_a) (Some hematocrit_b) None)
       (\<lambda>r. Inr (hematocrit_a, hematocrit_b, rbc_bal + r)))"

definition hematocrit_3_1 ::
  "real \<Rightarrow> real \<Rightarrow> real \<Rightarrow> real \<Rightarrow> real \<Rightarrow> real \<Rightarrow> real \<Rightarrow> nat \<Rightarrow> error + (real \<times> nat)" where
  "hematocrit_3_1 flow_parent_a flow_parent_b flow_parent_c flow_daughter
        hemat_parent_a hemat_parent_b hemat_parent_c rbc_bal =
     ebind (fdiv (flow_parent_a * hemat_parent_a + flow_parent_b * hemat_parent_b
                    + flow_parent_c * hemat_parent_c)
              (flow_parent_a + flow_parent_b + flow_parent_c)) (\<lambda>hematocrit.
     ebind (qRCS 5 (Some flow_parent_a) (Some flow_parent_b) (Some flow_parent_c)
              (Some flow_daughter) None None
              (Some hemat_parent_a) (Some hemat_parent_b) (Some hemat_parent_c)
              (Some hematocrit) None None)
       (\<lambda>r. Inr (hematocrit, rbc_bal + r)))"

section \<open>The network and the state of a pass\<close>

text \<open>
  The fields of the network object that \<open>update_hd\<close> reads. \<open>hd_es\<close> is
  \<open>flownetwork.hd\<close>, a float array indexed by edge; \<open>boundary_hematocrit\<close> is the
  entry of \<open>PARAMETERS\<close> copied at the start of the pass, indexed like \<open>boundary_vs\<close>.
\<close>

record flownetwork =
  nr_of_vs :: nat
  edge_list :: "(nat \<times> nat) list"
  pressure :: "real list option"
  flow_rate :: "real list"
  diameter :: "real list"
  ht :: "real list"
  hd_es :: "real list"
  boundary_vs :: "nat list"
  boundary_hematocrit :: "real list"

text \<open>
  What a pass changes: the haematocrit array (written in place), the imbalance count, the
  edge variables of \<open>update_hd\<close>, which keep their value from one node to the next once
  assigned (\<open>None\<close> is unbound), and the nodes for which the line
  \<open>Node ... has no parent\<close> was printed.
\<close>

record pass_state =
  hd_now :: "real list"
  rbc_balance :: nat
  single_daughter :: "nat option"
  daughter_a :: "nat option"
  daughter_b :: "nat option"
  daughter_c :: "nat option"
  parent :: "nat option"
  parent_a :: "nat option"
  parent_b :: "nat option"
  parent_c :: "nat option"
  printed :: "nat list"

definition item :: "'a list \<Rightarrow> nat \<Rightarrow> error + 'a" where
  "item xs i = (if i < length xs then Inr (xs ! i) else Inl IndexError)"

definition store :: "'a list \<Rightarrow> nat \<Rightarrow> 'a \<Rightarrow> error + 'a list" where
  "store xs i v = (if i < length xs then Inr (xs[i := v]) else Inl IndexError)"

definition need :: "nat option \<Rightarrow> error + nat" where
  "need v = (case v of None \<Rightarrow> Inl UnboundLocalError | Some e \<Rightarrow> Inr e)"

text \<open>\<open>xs[v]\<close> for an edge variable \<open>v\<close>.\<close>

definition rd :: "real list \<Rightarrow> nat option \<Rightarrow> error + real" where
  "rd xs v = ebind (need v) (item xs)"

text \<open>
  \<open>flownetwork.boundary_hematocrit[np.where(flownetwork.boundary_vs == node[1])[0][0]]\<close>:
  the entry at the first position of the node among the boundary nodes.
\<close>

definition boundary_value :: "flownetwork \<Rightarrow> nat \<Rightarrow> error + real" where
  "boundary_value fn node =
     item (boundary_hematocrit fn) (length (takeWhile (\<lambda>v. v \<noteq> node) (boundary_vs fn)))"

text \<open>
  The targets of a tuple assignment are stored from left to right after the right-hand
  side has been evaluated.
\<close>

definition assign1 :: "pass_state \<Rightarrow> nat option \<Rightarrow> real \<times> nat \<Rightarrow> error + pass_state" where
  "assign1 st ta r =
     (case r of (va, rb) \<Rightarrow>
        ebind (need ta) (\<lambda>a. ebind (store (hd_now st) a va) (\<lambda>h.
        Inr (st\<lparr>hd_now := h, rbc_balance := rb\<rparr>))))"

definition assign2 ::
  "pass_state \<Rightarrow> nat option \<Rightarrow> nat option \<Rightarrow> real \<times> real \<times> nat \<Rightarrow> error + pass_state" where
  "assign2 st ta tb r =
     (case r of (va, vb, rb) \<Rightarrow>
        ebind (need ta) (\<lambda>a. ebind (store (hd_now st) a va) (\<lambda>h.
        ebind (need tb) (\<lambda>b. ebind (store h b vb) (\<lambda>h'.
        Inr (st\<lparr>hd_now := h', rbc_balance := rb\<rparr>))))))"

definition assign3 ::
  "pass_state \<Rightarrow> nat option \<Rightarrow> nat option \<Rightarrow> nat option \<Rightarrow> real \<times> real \<times> real \<times> nat
     \<Rightarrow> error + pass_state" where
  "assign3 st ta tb tc r =
     (case r of (va, vb, vc, rb) \<Rightarrow>
        ebind (need ta) (\<lambda>a. ebind (store (hd_now st) a va) (\<lambda>h.
        ebind (need tb) (\<lambda>b. ebind (store h b vb) (\<lambda>h'.
        ebind (need tc) (\<lambda>c. ebind (store h' c vc) (\<lambda>h''.
        Inr (st\<lparr>hd_now := h'', rbc_balance := rb\<rparr>))))))))"

section \<open>The topology of a node\<close>

text \<open>
  Lines 389 to 398: the positions in \<open>edge_list\<close> of the edges that have the node as
  an endpoint.
\<close>

definition edge_connected_position :: "(nat \<times> nat) list \<Rightarrow> nat \<Rightarrow> nat list" where
  "edge_connected_position es node =
     filter (\<lambda>edge. fst (es ! edge) = node \<or> snd (es ! edge) = node) [0..<length es]"

text \<open>\<open>np.isin(on, edge)\<close> for one row of \<open>edge_list\<close>.\<close>

definition isin_edge :: "nat \<Rightarrow> nat \<times> nat \<Rightarrow> bool" where
  "isin_edge on e = (on = fst e \<or> on = snd e)"

text \<open>
  Lines 401 to 416: the scan of the pressure-ordered nodes. A node met before the node
  itself that is an endpoint of a connected edge makes every such edge a parent edge; at
  the node itself the connected edges that are no parent edges become the daughters and
  the scan stops. The result is \<open>(parent_edge, edge_daughter)\<close>.
\<close>

fun scan_ordered ::
  "(nat \<times> nat) list \<Rightarrow> nat list \<Rightarrow> nat \<Rightarrow> nat list \<Rightarrow> nat list \<Rightarrow> nat list \<times> nat list" where
  "scan_ordered es pos node [] parent_edge = (parent_edge, [])"
| "scan_ordered es pos node (on # ons) parent_edge =
     (if on = node then (parent_edge, filter (\<lambda>element. element \<notin> set parent_edge) pos)
      else if list_ex (\<lambda>i. isin_edge on (es ! i)) pos then
        scan_ordered es pos node ons (parent_edge @ filter (\<lambda>i. isin_edge on (es ! i)) pos)
      else scan_ordered es pos node ons parent_edge)"

text \<open>Lines 420 to 446: the two \<open>match\<close> statements on the lengths of the lists.\<close>

definition bind_daughters :: "nat list \<Rightarrow> pass_state \<Rightarrow> nat \<times> pass_state" where
  "bind_daughters edge_daughter st =
     (case edge_daughter of
        [d] \<Rightarrow> (1, st\<lparr>single_daughter := Some d\<rparr>)
      | [a, b] \<Rightarrow> (2, st\<lparr>daughter_a := Some a, daughter_b := Some b\<rparr>)
      | [a, b, c] \<Rightarrow> (3, st\<lparr>daughter_a := Some a, daughter_b := Some b, daughter_c := Some c\<rparr>)
      | _ \<Rightarrow> (0, st))"

definition bind_parents :: "nat list \<Rightarrow> pass_state \<Rightarrow> nat \<times> pass_state" where
  "bind_parents parent_edge st =
     (case parent_edge of
        [p] \<Rightarrow> (1, st\<lparr>parent := Some p\<rparr>)
      | [a, b] \<Rightarrow> (2, st\<lparr>parent_a := Some a, parent_b := Some b\<rparr>)
      | [a, b, c] \<Rightarrow> (3, st\<lparr>parent_a := Some a, parent_b := Some b, parent_c := Some c\<rparr>)
      | _ \<Rightarrow> (0, st))"

section \<open>The dispatch on the shape of a node\<close>

text \<open>
  Lines 449 to 599: a boundary node. \<open>flow\<close> is the array of absolute flows,
  \<open>flow_rate\<close> the signed one. In the case \<open>(0, 1)\<close> the pair returned by
  \<open>hematocrit_1_1\<close> is stored as it is into one cell of the haematocrit array, which a
  float array refuses, and the count is not assigned. In the second branch of the case
  \<open>(2, 1)\<close> the edge variables read and written are \<open>daughter_a\<close> and
  \<open>daughter_b\<close>, which this node has not assigned. A pair that matches no case leaves
  the state as it is.
\<close>

definition boundary_node ::
  "flownetwork \<Rightarrow> real list \<Rightarrow> nat \<Rightarrow> nat \<Rightarrow> nat \<Rightarrow> pass_state \<Rightarrow> error + pass_state" where
  "boundary_node fn flow node n_parent n_daughter st =
     (let hdv = hd_now st; dia = diameter fn; q = flow_rate fn; rb = rbc_balance st;
          sd = single_daughter st; da = daughter_a st; db = daughter_b st; dc = daughter_c st;
          p = parent st; pa = parent_a st; pb = parent_b st in
      if n_parent = 0 \<and> n_daughter = 1 then
        ebind (boundary_value fn node) (\<lambda>bh.
        ebind (rd flow sd) (\<lambda>f_p.
        ebind (rd flow sd) (\<lambda>f_d.
        ebind (hematocrit_1_1 bh f_p f_d rb) (\<lambda>pair. Inl ValueError))))
      else if n_parent = 1 \<and> n_daughter = 0 then Inr st
      else if n_parent = 0 \<and> n_daughter = 2 then
        ebind (rd dia da) (\<lambda>d_a.
        ebind (rd dia db) (\<lambda>d_b.
        ebind (rd flow da) (\<lambda>f_a.
        ebind (rd flow db) (\<lambda>f_b.
        ebind (boundary_value fn node) (\<lambda>hemat_parent.
        ebind (hematocrit_1_2 (f_a + f_b) hemat_parent f_a f_b rb ((d_a + d_b) / 2) d_a d_b)
          (assign2 st da db))))))
      else if n_parent = 2 \<and> n_daughter = 0 then Inr st
      else if n_parent = 1 \<and> n_daughter = 1 then
        ebind (rd q p) (\<lambda>q_p.
        ebind (rd q sd) (\<lambda>q_d.
        if q_p < q_d then
          ebind (boundary_value fn node) (\<lambda>hematocrit_ghost.
          ebind (rd flow p) (\<lambda>f_p.
          ebind (rd flow sd) (\<lambda>f_d.
          ebind (rd hdv p) (\<lambda>h_p.
          ebind (hematocrit_2_1 f_p (q_d - q_p) f_d h_p hematocrit_ghost rb)
            (assign1 st sd)))))
        else
          ebind (rd dia sd) (\<lambda>diameter_ghost.
          ebind (rd flow p) (\<lambda>f_p.
          ebind (rd hdv p) (\<lambda>h_p.
          ebind (rd flow sd) (\<lambda>f_d.
          ebind (rd dia p) (\<lambda>d_p.
          ebind (rd dia sd) (\<lambda>d_d.
          ebind (hematocrit_1_2 f_p h_p f_d (q_p - q_d) rb d_p d_d diameter_ghost)
            (\<lambda>(hemat, hemat_ghost_daughter, rb'). assign1 st sd (hemat, rb'))))))))))
      else if n_parent = 2 \<and> n_daughter = 1 then
        ebind (rd flow pa) (\<lambda>f_pa.
        ebind (rd flow pb) (\<lambda>f_pb.
        ebind (rd flow sd) (\<lambda>f_d.
        if f_d > f_pa + f_pb then
          ebind (boundary_value fn node) (\<lambda>hematocrit_ghost.
          ebind (rd hdv pa) (\<lambda>h_pa.
          ebind (rd hdv pb) (\<lambda>h_pb.
          ebind (hematocrit_3_1 f_pa f_pb (f_d - (f_pa + f_pb)) f_d h_pa h_pb hematocrit_ghost rb)
            (assign1 st sd))))
        else
          ebind (rd hdv pa) (\<lambda>h_pa.
          ebind (rd hdv pb) (\<lambda>h_pb.
          ebind (rd dia pa) (\<lambda>d_pa.
          ebind (rd dia pb) (\<lambda>d_pb.
          ebind (hematocrit_2_2_aux h_pa h_pb f_pa f_pb d_pa d_pb)
            (\<lambda>(diameter_parent, flow_parent, hemat_parent).
          ebind (rd flow da) (\<lambda>f_a.
          ebind (rd dia da) (\<lambda>d_a.
          ebind (hematocrit_1_2 flow_parent hemat_parent f_a (f_pa + f_pb - f_d) rb
                   diameter_parent d_a d_a)
            (assign2 st da db)))))))))))
      else if n_parent = 3 \<and> n_daughter = 0 then Inr st
      else if n_parent = 0 \<and> n_daughter = 3 then
        ebind (boundary_value fn node) (\<lambda>hematocrit_ghost.
        ebind (rd flow da) (\<lambda>f_a.
        ebind (rd flow db) (\<lambda>f_b.
        ebind (rd flow dc) (\<lambda>f_c.
        ebind (hematocrit_1_3 (f_a + f_b + f_c) hematocrit_ghost f_a f_b f_c rb)
          (assign3 st da db dc)))))
      else if n_parent = 1 \<and> n_daughter = 2 then
        ebind (rd flow da) (\<lambda>f_a.
        ebind (rd flow db) (\<lambda>f_b.
        ebind (rd q p) (\<lambda>q_p.
        if q_p > f_a + f_b then
          ebind (rd flow p) (\<lambda>f_p.
          ebind (rd hdv p) (\<lambda>h_p.
          ebind (hematocrit_1_3 f_p h_p f_a f_b (f_p - (f_a + f_b)) rb)
            (\<lambda>(hemat_a, hemat_b, hematocrit_ghost_daughter, rb').
               assign2 st da db (hemat_a, hemat_b, rb'))))
        else
          ebind (rd flow p) (\<lambda>f_p.
          ebind (rd hdv p) (\<lambda>h_p.
          ebind (boundary_value fn node) (\<lambda>hematocrit_ghost.
          ebind (rd dia da) (\<lambda>d_a.
          ebind (hematocrit_2_2_aux h_p hematocrit_ghost f_p (f_a + f_b - f_p) d_a d_a)
            (\<lambda>(diameter_parent, flow_parent, hemat_parent).
          ebind (rd dia db) (\<lambda>d_b.
          ebind (hematocrit_1_2 flow_parent hemat_parent f_a f_b rb diameter_parent d_a d_b)
            (assign2 st da db))))))))))
      else Inr st)"

text \<open>
  Lines 601 to 659: an interior node. The last case, \<open>(0, _)\<close>, prints a line and
  writes nothing; a pair that matches no case leaves the state as it is and prints
  nothing.
\<close>

definition interior_node ::
  "flownetwork \<Rightarrow> real list \<Rightarrow> nat \<Rightarrow> nat \<Rightarrow> nat \<Rightarrow> pass_state \<Rightarrow> error + pass_state" where
  "interior_node fn flow node n_parent n_daughter st =
     (let hdv = hd_now st; dia = diameter fn; rb = rbc_balance st;
          sd = single_daughter st; da = daughter_a st; db = daughter_b st; dc = daughter_c st;
          p = parent st; pa = parent_a st; pb = parent_b st; pc = parent_c st in
      if n_parent = 1 \<and> n_daughter = 1 then
        ebind (rd hdv p) (\<lambda>h_p.
        ebind (rd flow p) (\<lambda>f_p.
        ebind (rd flow sd) (\<lambda>f_d.
        ebind (hematocrit_1_1 h_p f_p f_d rb) (assign1 st sd))))
      else if n_parent = 1 \<and> n_daughter = 2 then
        ebind (rd flow p) (\<lambda>f_p.
        ebind (rd hdv p) (\<lambda>h_p.
        ebind (rd flow da) (\<lambda>f_a.
        ebind (rd flow db) (\<lambda>f_b.
        ebind (rd dia p) (\<lambda>d_p.
        ebind (rd dia da) (\<lambda>d_a.
        ebind (rd dia db) (\<lambda>d_b.
        ebind (hematocrit_1_2 f_p h_p f_a f_b rb d_p d_a d_b) (assign2 st da db))))))))
      else if n_parent = 1 \<and> n_daughter = 3 then
        ebind (rd flow p) (\<lambda>f_p.
        ebind (rd hdv p) (\<lambda>h_p.
        ebind (rd flow da) (\<lambda>f_a.
        ebind (rd flow db) (\<lambda>f_b.
        ebind (rd flow dc) (\<lambda>f_c.
        ebind (hematocrit_1_3 f_p h_p f_a f_b f_c rb) (assign3 st da db dc))))))
      else if n_parent = 2 \<and> n_daughter = 1 then
        ebind (rd flow pa) (\<lambda>f_pa.
        ebind (rd flow pb) (\<lambda>f_pb.
        ebind (rd flow sd) (\<lambda>f_d.
        ebind (rd hdv pa) (\<lambda>h_pa.
        ebind (rd hdv pb) (\<lambda>h_pb.
        ebind (hematocrit_2_1 f_pa f_pb f_d h_pa h_pb rb) (assign1 st sd))))))
      else if n_parent = 2 \<and> n_daughter = 2 then
        ebind (rd hdv pa) (\<lambda>h_pa.
        ebind (rd hdv pb) (\<lambda>h_pb.
        ebind (rd flow pa) (\<lambda>f_pa.
        ebind (rd flow pb) (\<lambda>f_pb.
        ebind (rd dia da) (\<lambda>d_a.
        ebind (rd dia db) (\<lambda>d_b.
        ebind (hematocrit_2_2_aux h_pa h_pb f_pa f_pb d_a d_b)
          (\<lambda>(diameter_parent, flow_parent, hemat_parent).
        ebind (rd flow da) (\<lambda>f_a.
        ebind (rd flow db) (\<lambda>f_b.
        ebind (hematocrit_1_2 flow_parent hemat_parent f_a f_b rb diameter_parent d_a d_b)
          (assign2 st da db))))))))))
      else if n_parent = 3 \<and> n_daughter = 1 then
        ebind (rd flow pa) (\<lambda>f_pa.
        ebind (rd flow pb) (\<lambda>f_pb.
        ebind (rd flow pc) (\<lambda>f_pc.
        ebind (rd flow sd) (\<lambda>f_d.
        ebind (rd hdv pa) (\<lambda>h_pa.
        ebind (rd hdv pb) (\<lambda>h_pb.
        ebind (rd hdv pc) (\<lambda>h_pc.
        ebind (hematocrit_3_1 f_pa f_pb f_pc f_d h_pa h_pb h_pc rb) (assign1 st sd))))))))
      else if n_parent = 0 then Inr (st\<lparr>printed := printed st @ [node]\<rparr>)
      else Inr st)"

section \<open>One pass of \<open>update_hd\<close>\<close>

text \<open>
  The body of the loop over the nodes: the topology of the node, the edge variables, then
  the dispatch.
\<close>

definition process_node ::
  "flownetwork \<Rightarrow> real list \<Rightarrow> nat list \<Rightarrow> nat \<Rightarrow> pass_state \<Rightarrow> error + pass_state" where
  "process_node fn flow ordered_node node st =
     (case scan_ordered (edge_list fn) (edge_connected_position (edge_list fn) node) node
             ordered_node [] of
        (parent_edge, edge_daughter) \<Rightarrow>
          (case bind_daughters edge_daughter st of (n_daughter, st1) \<Rightarrow>
          (case bind_parents parent_edge st1 of (n_parent, st2) \<Rightarrow>
             if node \<in> set (boundary_vs fn) then boundary_node fn flow node n_parent n_daughter st2
             else interior_node fn flow node n_parent n_daughter st2)))"

fun node_loop ::
  "flownetwork \<Rightarrow> real list \<Rightarrow> nat list \<Rightarrow> nat list \<Rightarrow> pass_state \<Rightarrow> error + pass_state" where
  "node_loop fn flow ordered_node [] st = Inr st"
| "node_loop fn flow ordered_node (node # rest) st =
     ebind (process_node fn flow ordered_node node st) (node_loop fn flow ordered_node rest)"

text \<open>
  Lines 370 to 376: \<open>argsort\<close> of the pressures of the nodes, reversed. \<open>argsort\<close>
  belongs to numpy, not to the repository, and is a parameter: a function from the list of
  keys to a list of positions. numpy promises positions that sort the keys in ascending
  order; its default kind of sort is not stable, so that the order it gives to equal keys
  is not fixed.
\<close>

definition ordered_nodes :: "(real list \<Rightarrow> nat list) \<Rightarrow> real list \<Rightarrow> nat \<Rightarrow> nat list" where
  "ordered_nodes argsort p n = rev (argsort (take n p))"

text \<open>
  An \<open>argsort\<close> that is stable, as \<open>kind='stable'\<close> is: positions with equal keys keep
  their order. On keys without ties every sort gives this list.
\<close>

definition stable_argsort :: "real list \<Rightarrow> nat list" where
  "stable_argsort ks = sort_key (\<lambda>i. ks ! i) [0..<length ks]"

definition initial_state :: "flownetwork \<Rightarrow> pass_state" where
  "initial_state fn =
     \<lparr>hd_now = hd_es fn, rbc_balance = 0, single_daughter = None, daughter_a = None,
      daughter_b = None, daughter_c = None, parent = None, parent_a = None, parent_b = None,
      parent_c = None, printed = []\<rparr>"

text \<open>
  \<open>update_hd\<close> of \<open>DischargeHaematocritPries1990\<close>, with the sort of numpy as
  its first argument. Without pressures the tube haematocrit is copied. Otherwise the
  nodes are processed in order and the count is
  tested at the end: \<open>sys.exit\<close> is called there with two arguments, which raises
  \<open>TypeError\<close>. The result is the network with its new haematocrit array, and the
  nodes printed as having no parent.
\<close>

definition update_hd ::
  "(real list \<Rightarrow> nat list) \<Rightarrow> flownetwork \<Rightarrow> error + (flownetwork \<times> nat list)" where
  "update_hd argsort fn =
     (case pressure fn of
        None \<Rightarrow> Inr (fn\<lparr>hd_es := ht fn\<rparr>, [])
      | Some p \<Rightarrow>
          if length p < nr_of_vs fn then Inl IndexError
          else
            (let flow = map abs (flow_rate fn); ordered_node = ordered_nodes argsort p (nr_of_vs fn) in
             ebind (node_loop fn flow ordered_node ordered_node (initial_state fn)) (\<lambda>st.
               if rbc_balance st > 0 then Inl TypeError
               else Inr (fn\<lparr>hd_es := hd_now st\<rparr>, printed st))))"

section \<open>The outer convergence loop\<close>

text \<open>
  \<open>_iterative_method\<close> of \<open>IterativeRoutineMultipleIteration\<close>. Of the network the
  loop reads and writes the iteration counter and the flag \<open>convergence_check\<close>. What
  the collaborators do in a pass is a parameter: whether one of them (the flow-balance
  check of \<open>iterative_routine\<close> calls \<open>sys.exit\<close>) ends the process in the pass
  entered with a given counter, and the residual \<open>berg_convergence\<close> returns in the
  pass that has brought the counter to a given value. In the first pass of a run entered
  at 0 no residual is computed; the test reads it only when the counter is above 2. The
  plots drawn every 25 passes are left out.
\<close>

record loop_state =
  iteration :: int
  convergence_check :: bool

record loop_env =
  routine_exits :: "int \<Rightarrow> bool"
  residual_berg :: "int \<Rightarrow> real"
  berg_criteria :: real

text \<open>Lines 134 to 135 and 185 to 387: one pass of the \<open>while\<close> loop.\<close>

definition loop_pass :: "loop_env \<Rightarrow> loop_state \<Rightarrow> loop_state" where
  "loop_pass env s =
     (let it = iteration s + 1 in
      if it > 2 \<and> residual_berg env it \<le> berg_criteria env \<and> it > 2000 then
        \<lparr>iteration = it, convergence_check = True\<rparr>
      else if it = 2000 then \<lparr>iteration = it, convergence_check = True\<rparr>
      else \<lparr>iteration = it, convergence_check = False\<rparr>)"

partial_function (option) while_loop :: "loop_env \<Rightarrow> loop_state \<Rightarrow> (error + loop_state) option" where
  "while_loop env s =
     (if convergence_check s then Some (Inr s)
      else if routine_exits env (iteration s) then Some (Inl SystemExit)
      else while_loop env (loop_pass env s))"

definition iterative_method :: "loop_env \<Rightarrow> loop_state \<Rightarrow> (error + loop_state) option" where
  "iterative_method env s = while_loop env (s\<lparr>convergence_check := False\<rparr>)"

section \<open>Example networks\<close>

text \<open>
  Small networks on which the pass is evaluated below. All vessels have a diameter of one
  micrometre and, but for one node of the last network, every boundary haematocrit is
  0.45; at the bifurcations met here the fractional flow of daughter a is below
  \<open>x_0\<close>, which is 0.616 for a parent haematocrit of 0.45. No two nodes of a network
  have the same pressure.

  \<open>two_node_network\<close>: one vessel from an inlet to an outlet.
\<close>

definition two_node_network :: flownetwork where
  "two_node_network =
     \<lparr>nr_of_vs = 2, edge_list = [(0, 1)], pressure = Some [2, 1], flow_rate = [1],
      diameter = [1 / 10 ^ 6], ht = [45 / 100], hd_es = [45 / 100], boundary_vs = [0, 1],
      boundary_hematocrit = [45 / 100, 45 / 100]\<rparr>"


text \<open>\<open>dead_end_network\<close>: the same graph, node 1 being an interior node.\<close>

definition dead_end_network :: flownetwork where
  "dead_end_network =
     \<lparr>nr_of_vs = 3, edge_list = [(0, 1), (0, 2)], pressure = Some [3, 2, 1], flow_rate = [1, 1],
      diameter = [1 / 10 ^ 6, 1 / 10 ^ 6], ht = [45 / 100, 45 / 100], hd_es = [45 / 100, 45 / 100],
      boundary_vs = [0, 2], boundary_hematocrit = [45 / 100, 45 / 100]\<rparr>"


text \<open>
  \<open>star_network\<close>: the interior node 3 has three vessels from nodes of higher pressure
  and two vessels to nodes of lower pressure.
\<close>

definition star_network :: flownetwork where
  "star_network =
     \<lparr>nr_of_vs = 6, edge_list = [(0, 3), (1, 3), (2, 3), (3, 4), (3, 5)],
      pressure = Some [9, 8, 7, 5, 2, 1], flow_rate = [1, 1, 1, 2, 1],
      diameter = [1 / 10 ^ 6, 1 / 10 ^ 6, 1 / 10 ^ 6, 1 / 10 ^ 6, 1 / 10 ^ 6],
      ht = [45 / 100, 45 / 100, 45 / 100, 45 / 100, 45 / 100],
      hd_es = [45 / 100, 45 / 100, 45 / 100, 45 / 100, 45 / 100],
      boundary_vs = [0, 1, 2, 4, 5],
      boundary_hematocrit = [45 / 100, 45 / 100, 45 / 100, 45 / 100, 45 / 100]\<rparr>"

text \<open>
  \<open>diamond_network\<close>: an inlet 0 with vessels 0 and 1 to the interior nodes 1 and 2,
  vessels 2 and 3 from these to the boundary node 3, and vessel 4 from node 3 to the
  outlet 4. Half of the flow that reaches node 3 leaves the network there.
\<close>

definition diamond_network :: flownetwork where
  "diamond_network =
     \<lparr>nr_of_vs = 5, edge_list = [(0, 1), (0, 2), (1, 3), (2, 3), (3, 4)],
      pressure = Some [10, 8, 7, 5, 1], flow_rate = [1, 3, 1, 3, 2],
      diameter = [1 / 10 ^ 6, 1 / 10 ^ 6, 1 / 10 ^ 6, 1 / 10 ^ 6, 1 / 10 ^ 6],
      ht = [45 / 100, 45 / 100, 45 / 100, 45 / 100, 45 / 100],
      hd_es = [45 / 100, 45 / 100, 45 / 100, 45 / 100, 45 / 100],
      boundary_vs = [0, 3, 4], boundary_hematocrit = [45 / 100, 45 / 100, 45 / 100]\<rparr>"

text \<open>
  \<open>signed_flow_network\<close>: an inlet 0 with vessels 0 and 1 to the boundary nodes 1 and 2,
  and vessels 2 and 3 from node 1 to the outlets 3 and 4. Vessel 0 is stored as
  \<open>(1, 0)\<close>, against the direction of its flow, so that its signed flow rate is
  negative. Of the flow 3 that reaches node 1, 2 goes on to the outlets and 1 leaves the
  network at the node, whose boundary haematocrit is 0.6.
\<close>

definition signed_flow_network :: flownetwork where
  "signed_flow_network =
     \<lparr>nr_of_vs = 5, edge_list = [(1, 0), (0, 2), (1, 3), (1, 4)],
      pressure = Some [5, 4, 3, 2, 1], flow_rate = [- 3, 3, 1, 1],
      diameter = [1 / 10 ^ 6, 1 / 10 ^ 6, 1 / 10 ^ 6, 1 / 10 ^ 6],
      ht = [45 / 100, 45 / 100, 45 / 100, 45 / 100],
      hd_es = [45 / 100, 45 / 100, 45 / 100, 45 / 100],
      boundary_vs = [0, 1, 2, 3, 4],
      boundary_hematocrit = [45 / 100, 6 / 10, 45 / 100, 45 / 100, 45 / 100]\<rparr>"

section \<open>Properties of the phase-separation law\<close>

lemma ebind_Inr_iff: "ebind m f = Inr y \<longleftrightarrow> (\<exists>v. m = Inr v \<and> f v = Inr y)"
  by (cases m) (auto simp: ebind_def)

lemma fdiv_Inr_iff: "fdiv a b = Inr r \<longleftrightarrow> (b \<noteq> 0 \<and> r = a / b)"
  by (auto simp: fdiv_def)

lemma fractional_qRBC_sum:
  "fractional_qRBC ff x0 A B = Inr (sa, sb) \<Longrightarrow> sa + sb = 1"
  by (auto simp: fractional_qRBC_def ebind_Inr_iff Let_def split: if_splits)

lemma rbc_shares_sum:
  "rbc_shares hp dp da db fa fb = Inr (sa, sb) \<Longrightarrow> sa + sb = 1"
  by (auto simp: rbc_shares_def ebind_Inr_iff dest: fractional_qRBC_sum)

lemma hemat_of_shares_flux:
  assumes "hemat_of_shares sa sb q fa fb = Inr (ha, hb)"
    and "fa \<ge> 1 / 10 ^ 36" and "fb \<ge> 1 / 10 ^ 36"
  shows "ha * fa + hb * fb = (sa + sb) * q"
  using assms
  by (auto simp: hemat_of_shares_def ebind_Inr_iff fdiv_Inr_iff algebra_simps split: if_splits)

lemma saturation_flux:
  assumes "saturation ha hb sa sb q fa fb = Inr (ha', hb')"
    and "ha * fa + hb * fb = (sa + sb) * q"
  shows "ha' * fa + hb' * fb = (sa + sb) * q"
  using assms
  by (auto simp: saturation_def ebind_Inr_iff fdiv_Inr_iff field_simps split: if_splits)


lemma get_erythrocyte_fraction_InrE:
  assumes "get_erythrocyte_fraction hp dp da db fp fa fb = Inr (ha, hb)"
  obtains sa sb ha0 hb0 where "rbc_shares hp dp da db fa fb = Inr (sa, sb)"
    and "hemat_of_shares sa sb (hp * fp) fa fb = Inr (ha0, hb0)"
    and "saturation ha0 hb0 sa sb (hp * fp) fa fb = Inr (ha, hb)"
    and "ha < 1" and "hb < 1"
  using assms
  by (auto simp: get_erythrocyte_fraction_def ebind_def Let_def
      split: sum.splits if_splits prod.splits)

lemmas law_defs =
  get_erythrocyte_fraction_def rbc_shares_def fractional_qRBC_def non_dimentional_param_def
  hemat_of_shares_def saturation_def threshold_def logit_def ebind_def fdiv_def
  x_o_init_def A_o_init_def B_o_init_def Let_def













section \<open>Properties of the law in rounded arithmetic\<close>

text \<open>
  With exact arithmetic the rounded law is the law of the first model.
\<close>

lemma exact_sel:
  "rnd exact = (\<lambda>x. x)" "pow_2 exact = (\<lambda>x. x ^ 2)" "pow_e exact = exp" "log_e exact = ln"
  by (simp_all add: exact_def)

lemma fdiv_fl_exact: "fdiv_fl exact a b = fdiv a b"
  by (simp add: fdiv_fl_def fdiv_def exact_sel)

lemma logit_fl_exact: "logit_fl exact x = logit x"
  unfolding logit_fl_def logit_def fdiv_fl_exact exact_sel by simp

lemma non_dimentional_param_fl_exact:
  "non_dimentional_param_fl exact hp dp da db = non_dimentional_param hp dp da db"
  unfolding non_dimentional_param_fl_def non_dimentional_param_def fdiv_fl_exact exact_sel by simp

lemma fractional_qRBC_fl_exact: "fractional_qRBC_fl exact ff x0 A B = fractional_qRBC ff x0 A B"
  unfolding fractional_qRBC_fl_def fractional_qRBC_def fdiv_fl_exact logit_fl_exact exact_sel by simp

lemma rbc_shares_fl_exact: "rbc_shares_fl exact hp dp da db fa fb = rbc_shares hp dp da db fa fb"
  unfolding rbc_shares_fl_def rbc_shares_def fdiv_fl_exact non_dimentional_param_fl_exact
    fractional_qRBC_fl_exact exact_sel by simp

lemma hemat_of_shares_fl_exact:
  "hemat_of_shares_fl exact sa sb q fa fb = hemat_of_shares sa sb q fa fb"
  unfolding hemat_of_shares_fl_def hemat_of_shares_def fdiv_fl_exact exact_sel by simp

lemma saturation_fl_exact:
  "saturation_fl exact ha hb sa sb q fa fb = saturation ha hb sa sb q fa fb"
  unfolding saturation_fl_def saturation_def threshold_def fdiv_fl_exact exact_sel by simp

lemma get_erythrocyte_fraction_fl_exact:
  "get_erythrocyte_fraction_fl exact hp dp da db fp fa fb = get_erythrocyte_fraction hp dp da db fp fa fb"
  unfolding get_erythrocyte_fraction_fl_def get_erythrocyte_fraction_def rbc_shares_fl_exact
    hemat_of_shares_fl_exact saturation_fl_exact exact_sel by simp

text \<open>
  binary64 rounding keeps a relative error of \<open>2 ^ -53\<close>, and is computed from the
  exponent of its argument.
\<close>

lemma rne_error: "\<bar>of_int (rne y) - y\<bar> \<le> 1 / 2"
  unfolding rne_def Let_def by (auto simp: abs_le_iff)

lemma f64_rel_error: "\<bar>f64 x - x\<bar> \<le> \<bar>x\<bar> / 2 ^ 53"
proof (cases "x = 0")
  case True
  then show ?thesis by (simp add: f64_def)
next
  case False
  define e where "e = \<lfloor>log 2 \<bar>x\<bar>\<rfloor>"
  define ulp :: real where "ulp = 2 powi (e - 52)"
  have pos: "0 < ulp" by (simp add: ulp_def)
  have "of_int e \<le> log 2 \<bar>x\<bar>" by (simp add: e_def)
  then have "2 powr (of_int e) \<le> \<bar>x\<bar>" using False by (simp add: le_log_iff)
  then have "2 powi e \<le> \<bar>x\<bar>" by (simp add: powr_real_of_int')
  moreover have "ulp = 2 powi e / 2 ^ 52"
    by (simp add: ulp_def power_int_diff)
  ultimately have ulp: "ulp \<le> \<bar>x\<bar> / 2 ^ 52" by (simp add: divide_right_mono)
  have "f64 x - x = ulp * (of_int (rne (x / ulp)) - x / ulp)"
    using False pos by (simp add: f64_def e_def ulp_def Let_def algebra_simps)
  then have "\<bar>f64 x - x\<bar> = ulp * \<bar>of_int (rne (x / ulp)) - x / ulp\<bar>"
    using pos by (simp add: abs_mult)
  also have "\<dots> \<le> ulp * (1 / 2)"
    using rne_error pos by (intro mult_left_mono) simp_all
  also have "\<dots> \<le> \<bar>x\<bar> / 2 ^ 53" using ulp by simp
  finally show ?thesis .
qed

lemma f64_eval:
  assumes "2 powi e \<le> \<bar>x\<bar>" and "\<bar>x\<bar> < 2 powi (e + 1)"
  shows "f64 x = of_int (rne (x / 2 powi (e - 52))) * 2 powi (e - 52)"
proof -
  have "(0::real) < 2 powi e" by (rule zero_less_power_int) simp
  with assms(1) have "0 < \<bar>x\<bar>" by linarith
  then have x: "x \<noteq> 0" by simp
  have "2 powr (of_int e) \<le> \<bar>x\<bar>" using assms(1) by (simp add: powr_real_of_int')
  then have "of_int e \<le> log 2 \<bar>x\<bar>" using x by (simp add: le_log_iff)
  moreover have "\<bar>x\<bar> < 2 powr (of_int (e + 1))"
    using assms(2) by (simp add: powr_real_of_int' del: of_int_add)
  then have "log 2 \<bar>x\<bar> < of_int (e + 1)" using x by (simp add: log_less_iff)
  ultimately have "\<lfloor>log 2 \<bar>x\<bar>\<rfloor> = e" by linarith
  then show ?thesis using x by (simp add: f64_def Let_def)
qed

lemma f64_zero: "f64 0 = 0"
  by (simp add: f64_def)

lemma float64_sel:
  "rnd float64 = f64" "pow_2 float64 = (\<lambda>x. f64 (x ^ 2))" "pow_e float64 = (\<lambda>x. f64 (exp x))"
  "log_e float64 = (\<lambda>x. f64 (ln x))"
  by (simp_all add: float64_def)

lemma float64_accurate: "accurate float64"
proof -
  have "0 \<le> f64 (exp x)" for x
  proof -
    have "\<bar>f64 (exp x) - exp x\<bar> \<le> exp x / 2 ^ 53" using f64_rel_error[of "exp x"] by simp
    moreover have "exp x / 2 ^ 53 \<le> exp x" by (simp add: field_simps)
    ultimately show ?thesis by linarith
  qed
  moreover have "\<bar>rnd float64 x - x\<bar> \<le> \<bar>x\<bar> / 2 ^ 53" for x
    using f64_rel_error[of x] by (simp add: float64_def)
  ultimately show ?thesis unfolding accurate_def by (simp add: float64_def)
qed

lemma exact_accurate: "accurate exact"
  by (simp add: accurate_def exact_def)

text \<open>
  The error of one rounded operation, of a rounded product that is divided, and the range
  of the rounded threshold.
\<close>

lemma power_values:
  "(2 :: real) ^ 53 = 9007199254740992" "(2 :: real) ^ 52 = 4503599627370496"
  "(2 :: real) ^ 49 = 562949953421312" "(2 :: real) ^ 48 = 281474976710656"
  by simp_all

lemma rnd_err: "accurate ar \<Longrightarrow> \<bar>rnd ar x - x\<bar> \<le> \<bar>x\<bar> / 2 ^ 53"
  by (simp add: accurate_def)

lemma rnd_scaled:
  assumes "accurate ar"
  shows "\<bar>rnd ar x * c - x * c\<bar> \<le> \<bar>x * c\<bar> / 2 ^ 53"
proof -
  have "\<bar>rnd ar x * c - x * c\<bar> = \<bar>rnd ar x - x\<bar> * \<bar>c\<bar>"
    by (simp add: abs_mult[symmetric] left_diff_distrib)
  also have "\<dots> \<le> (\<bar>x\<bar> / 2 ^ 53) * \<bar>c\<bar>"
    using rnd_err[OF assms, of x] by (intro mult_right_mono) simp_all
  also have "\<dots> = \<bar>x * c\<bar> / 2 ^ 53" by (simp add: abs_mult)
  finally show ?thesis .
qed

lemma fdiv_fl_err:
  assumes "accurate ar" and "fdiv_fl ar a b = Inr r"
  shows "b \<noteq> 0 \<and> \<bar>r * b - a\<bar> \<le> \<bar>a\<bar> / 2 ^ 53"
proof -
  from assms(2) have b: "b \<noteq> 0" and r: "r = rnd ar (a / b)"
    by (auto simp: fdiv_fl_def split: if_splits)
  from rnd_scaled[OF assms(1), of "a / b" b] b show ?thesis by (simp add: r)
qed

lemma fdiv_fl_rnd_err:
  assumes "accurate ar" and "fdiv_fl ar (rnd ar x) b = Inr r"
  shows "b \<noteq> 0 \<and> \<bar>r * b - x\<bar> \<le> 3 * \<bar>x\<bar> / 2 ^ 53"
proof -
  from fdiv_fl_err[OF assms] have b: "b \<noteq> 0"
    and 1: "\<bar>r * b - rnd ar x\<bar> \<le> \<bar>rnd ar x\<bar> / 2 ^ 53" by simp_all
  from rnd_err[OF assms(1), of x] have 2: "\<bar>rnd ar x - x\<bar> \<le> \<bar>x\<bar> / 2 ^ 53" .
  from 1 2 have "\<bar>r * b - x\<bar> \<le> 3 * \<bar>x\<bar> / 2 ^ 53" unfolding power_values by argo
  with b show ?thesis by simp
qed

lemma threshold_range:
  assumes "accurate ar"
  shows "98 / 100 \<le> rnd ar (99 / 100) \<and> rnd ar (99 / 100) \<le> 1 \<and>
         \<bar>rnd ar (99 / 100) - 99 / 100\<bar> \<le> 1 / 2 ^ 53"
  using rnd_err[OF assms, of "99 / 100"] unfolding power_values by argo

lemma abs3: "\<bar>a + b + c\<bar> \<le> \<bar>a\<bar> + \<bar>b\<bar> + \<bar>c :: real\<bar>"
  using abs_triangle_ineq[of "a + b" c] abs_triangle_ineq[of a b] by simp

lemma abs4: "\<bar>a + b + c + d\<bar> \<le> \<bar>a\<bar> + \<bar>b\<bar> + \<bar>c\<bar> + \<bar>d :: real\<bar>"
  using abs_triangle_ineq[of "a + b + c" d] abs3[of a b c] by simp

text \<open>
  The saturation step on one daughter. \<open>h0\<close> is the haematocrit of the saturated
  daughter before the step, \<open>f\<close> its flow and \<open>so\<close> its share; \<open>st\<close> and \<open>g\<close>
  are the share and the flow of the other daughter, \<open>h\<close> and \<open>k\<close> the two results. The
  flux quantities of the computation are compared one with the next.
\<close>

lemma clamp_core:
  assumes acc: "accurate ar"
    and T: "T = rnd ar (99 / 100)" and h0: "T \<le> h0"
    and pre: "\<bar>h0 * f - so * q\<bar> \<le> 3 * \<bar>so * q\<bar> / 2 ^ 53"
    and s: "fdiv_fl ar (rnd ar (rnd ar (h0 - T) * f)) q = Inr s"
    and h: "fdiv_fl ar (rnd ar (rnd ar (so - s) * q)) f = Inr h"
    and k: "fdiv_fl ar (rnd ar (rnd ar (st + s) * q)) g = Inr k"
  shows "\<bar>h - T\<bar> \<le> (1 + h0) / 2 ^ 49 \<and>
         \<bar>h * f + k * g - (so + st) * q\<bar> \<le> 16 * (\<bar>so * q\<bar> + \<bar>st * q\<bar>) / 2 ^ 53"
proof -
  define X where "X = so * q"
  define Y where "Y = st * q"
  define F where "F = h0 * f"
  define W where "W = T * f"
  define G where "G = rnd ar (h0 - T) * f"
  define S where "S = s * q"
  define D where "D = rnd ar (so - s) * q"
  define A where "A = rnd ar (st + s) * q"
  define hf where "hf = h * f"
  define kg where "kg = k * g"
  define aX where "aX = \<bar>X\<bar>"
  define aY where "aY = \<bar>Y\<bar>"
  define aF where "aF = \<bar>F\<bar>"
  define aW where "aW = \<bar>W\<bar>"
  define aFW where "aFW = \<bar>F - W\<bar>"
  define aG where "aG = \<bar>G\<bar>"
  define aS where "aS = \<bar>S\<bar>"
  define aD where "aD = \<bar>D\<bar>"
  define aA where "aA = \<bar>A\<bar>"
  define aXS where "aXS = \<bar>X - S\<bar>"
  define aYS where "aYS = \<bar>Y + S\<bar>"
  define dFX where "dFX = \<bar>F - X\<bar>"
  define dG where "dG = \<bar>G - (F - W)\<bar>"
  define dS where "dS = \<bar>S - G\<bar>"
  define dD where "dD = \<bar>D - (X - S)\<bar>"
  define dA where "dA = \<bar>A - (Y + S)\<bar>"
  define dh where "dh = \<bar>hf - D\<bar>"
  define dk where "dk = \<bar>kg - A\<bar>"
  define eW where "eW = \<bar>hf - W\<bar>"
  define eXS where "eXS = \<bar>(X - S) - W\<bar>"
  define eF where "eF = \<bar>hf + kg - (X + Y)\<bar>"
  note mags = aX_def aY_def aF_def aW_def aFW_def aG_def aS_def aD_def aA_def aXS_def aYS_def
    dFX_def dG_def dS_def dD_def dA_def dh_def dk_def eW_def eXS_def eF_def
  have T0: "0 \<le> T" "T \<le> 1" using threshold_range[OF acc] T by simp_all
  have nn: "0 \<le> aX" "0 \<le> aY" "0 \<le> aF" "0 \<le> aW" "0 \<le> aXS" "0 \<le> aYS" "0 \<le> aG"
    by (simp_all add: mags)
  have f1: "dFX \<le> 3 * aX / 2 ^ 53" using pre by (simp add: mags F_def X_def)
  have "(h0 - T) * f = F - W" by (simp add: F_def W_def algebra_simps)
  with rnd_scaled[OF acc, of "h0 - T" f] have f2: "dG \<le> aFW / 2 ^ 53"
    by (simp add: mags G_def)
  from fdiv_fl_rnd_err[OF acc s] have q: "q \<noteq> 0" and f3: "dS \<le> 3 * aG / 2 ^ 53"
    by (simp_all add: mags S_def G_def)
  have "(so - s) * q = X - S" by (simp add: X_def S_def algebra_simps)
  with rnd_scaled[OF acc, of "so - s" q] have f4: "dD \<le> aXS / 2 ^ 53"
    by (simp add: mags D_def)
  have "(st + s) * q = Y + S" by (simp add: Y_def S_def algebra_simps)
  with rnd_scaled[OF acc, of "st + s" q] have f5: "dA \<le> aYS / 2 ^ 53"
    by (simp add: mags A_def)
  from fdiv_fl_rnd_err[OF acc h] have f: "f \<noteq> 0" and f6: "dh \<le> 3 * aD / 2 ^ 53"
    by (simp_all add: mags hf_def D_def)
  from fdiv_fl_rnd_err[OF acc k] have f7: "dk \<le> 3 * aA / 2 ^ 53"
    by (simp_all add: mags kg_def A_def)
  have aW: "aW = T * \<bar>f\<bar>" using T0 by (simp add: mags W_def abs_mult)
  have aF: "aF = h0 * \<bar>f\<bar>" using T0 h0 by (simp add: mags F_def abs_mult)
  have aFW: "aFW = (h0 - T) * \<bar>f\<bar>"
    using h0 by (simp add: mags F_def W_def abs_mult left_diff_distrib[symmetric])
  have f8: "aW \<le> aF" unfolding aW aF using h0 by (intro mult_right_mono) simp_all
  have f9: "aFW \<le> aF" unfolding aFW aF using T0 by (intro mult_right_mono) simp_all
  have t1: "aX \<le> aF + dFX" "aF \<le> aX + dFX" unfolding mags by linarith+
  have t2: "aG \<le> aFW + dG" unfolding mags by linarith
  have t3: "aS \<le> aG + dS" unfolding mags by linarith
  have t4: "aXS \<le> aW + eXS" unfolding mags by linarith
  have t5: "aD \<le> aXS + dD" unfolding mags by linarith
  have t6: "aXS \<le> aX + aS" "aYS \<le> aY + aS" unfolding mags by linarith+
  have t7: "aA \<le> aYS + dA" unfolding mags by linarith
  have "(X - S) - W = (X - F) + ((F - W) - G) + (G - S)" by simp
  then have "eXS \<le> \<bar>X - F\<bar> + \<bar>(F - W) - G\<bar> + \<bar>G - S\<bar>"
    unfolding eXS_def using abs3[of "X - F" "(F - W) - G" "G - S"] by (simp only:)
  then have t8: "eXS \<le> dFX + dG + dS" unfolding mags by (simp only: abs_minus_commute)
  have "hf - W = (hf - D) + (D - (X - S)) + ((X - S) - W)" by simp
  then have t9: "eW \<le> dh + dD + eXS"
    unfolding mags using abs3[of "hf - D" "D - (X - S)" "(X - S) - W"] by (simp only:)
  have "hf + kg - (X + Y) = (hf - D) + (D - (X - S)) + (kg - A) + (A - (Y + S))" by simp
  then have t10: "eF \<le> dh + dD + dk + dA"
    unfolding mags using abs4[of "hf - D" "D - (X - S)" "kg - A" "A - (Y + S)"] by (simp only:)
  have e4: "eW \<le> 5 * aW / 2 ^ 53 + 11 * aF / 2 ^ 53"
    using nn f1 f2 f3 f4 f6 f8 f9 t1 t2 t3 t4 t5 t8 t9 unfolding power_values by linarith
  have "hf - W = (h - T) * f" by (simp add: hf_def W_def algebra_simps)
  then have "\<bar>h - T\<bar> * \<bar>f\<bar> \<le> 5 * aW / 2 ^ 53 + 11 * aF / 2 ^ 53"
    using e4 by (simp add: eW_def abs_mult)
  also have "\<dots> = (5 * T / 2 ^ 53 + 11 * h0 / 2 ^ 53) * \<bar>f\<bar>"
    unfolding aW aF by (simp add: algebra_simps)
  finally have "\<bar>h - T\<bar> \<le> 5 * T / 2 ^ 53 + 11 * h0 / 2 ^ 53"
    using f by simp
  then have r1: "\<bar>h - T\<bar> \<le> (1 + h0) / 2 ^ 49" using T0 h0 by simp
  have mS: "aS \<le> aX + 9 * aX / 2 ^ 53"
    using nn f1 f2 f3 f9 t1 t2 t3 unfolding power_values by linarith
  have mD: "dh + dD \<le> 5 * aXS / 2 ^ 53" using nn f4 f6 t5 unfolding power_values by linarith
  have mA: "dk + dA \<le> 5 * aYS / 2 ^ 53" using nn f5 f7 t7 unfolding power_values by linarith
  have "eF \<le> 16 * (aX + aY) / 2 ^ 53"
    using nn mS mD mA t6 t10 unfolding power_values by argo
  then have r2: "\<bar>h * f + k * g - (so + st) * q\<bar> \<le> 16 * (\<bar>so * q\<bar> + \<bar>st * q\<bar>) / 2 ^ 53"
    by (simp add: mags hf_def kg_def X_def Y_def algebra_simps)
  from r1 r2 show ?thesis by simp
qed

lemma fractional_qRBC_fl_range:
  assumes acc: "accurate ar" and r: "fractional_qRBC_fl ar ff x0 A B = Inr (sa, sb)"
  shows "\<bar>sa\<bar> + \<bar>sb\<bar> \<le> 9 / 8 \<and> \<bar>sa + sb - 1\<bar> \<le> 1 / 2 ^ 53"
proof -
  consider (low) "sa = 0" "sb = 1" | (high) "sa = 1" "sb = 0"
    | (mid) l where "fdiv_fl ar (pow_e ar l) (rnd ar (1 + pow_e ar l)) = Inr sa" "sb = rnd ar (1 - sa)"
    using r by (auto simp: fractional_qRBC_fl_def ebind_Inr_iff Let_def split: if_splits)
  then show ?thesis
  proof cases
    case low
    then show ?thesis by simp
  next
    case high
    then show ?thesis by simp
  next
    case mid
    define E where "E = pow_e ar l"
    define D where "D = rnd ar (1 + E)"
    define P where "P = sa * D"
    have E: "0 \<le> E" using acc by (simp add: E_def accurate_def)
    have d: "\<bar>D - (1 + E)\<bar> \<le> \<bar>1 + E\<bar> / 2 ^ 53" unfolding D_def by (rule rnd_err[OF acc])
    then have D: "0 < D" "E \<le> D + D / 2 ^ 52" using E unfolding power_values by argo+
    from fdiv_fl_err[OF acc mid(1)] have p: "\<bar>P - E\<bar> \<le> \<bar>E\<bar> / 2 ^ 53"
      by (simp add: P_def E_def D_def)
    have lo: "0 \<le> sa"
    proof -
      have "0 \<le> P" using p E unfolding power_values by argo
      with D(1) show ?thesis by (simp add: P_def zero_le_mult_iff)
    qed
    have hi: "sa \<le> 1 + 4 / 2 ^ 53"
    proof (rule ccontr)
      assume "\<not> sa \<le> 1 + 4 / 2 ^ 53"
      then have "(1 + 4 / 2 ^ 53) * D \<le> sa * D" using D(1) by (intro mult_right_mono) simp_all
      then have "(1 + 4 / 2 ^ 53) * D \<le> P" by (simp add: P_def)
      with p E D show False unfolding power_values by argo
    qed
    have b: "\<bar>sb - (1 - sa)\<bar> \<le> \<bar>1 - sa\<bar> / 2 ^ 53" unfolding mid(2) by (rule rnd_err[OF acc])
    have 1: "\<bar>sa + sb - 1\<bar> \<le> 1 / 2 ^ 53" using b lo hi unfolding power_values by argo
    have 2: "\<bar>sa\<bar> + \<bar>sb\<bar> \<le> 9 / 8" using b lo hi unfolding power_values by argo
    from 1 2 show ?thesis by simp
  qed
qed

lemma rbc_shares_fl_range:
  assumes "accurate ar" and "rbc_shares_fl ar hp dp da db fa fb = Inr (sa, sb)"
  shows "\<bar>sa\<bar> + \<bar>sb\<bar> \<le> 9 / 8 \<and> \<bar>sa + sb - 1\<bar> \<le> 1 / 2 ^ 53"
  using assms(2) fractional_qRBC_fl_range[OF assms(1)]
  by (auto simp: rbc_shares_fl_def ebind_Inr_iff)

lemma hemat_of_shares_fl_cases:
  assumes acc: "accurate ar" and r: "hemat_of_shares_fl ar sa sb q fa fb = Inr (ha0, hb0)"
  shows "(ha0 = 0 \<or> fa \<noteq> 0 \<and> \<bar>ha0 * fa - sa * q\<bar> \<le> 3 * \<bar>sa * q\<bar> / 2 ^ 53) \<and>
         (hb0 = 0 \<or> fb \<noteq> 0 \<and> \<bar>hb0 * fb - sb * q\<bar> \<le> 3 * \<bar>sb * q\<bar> / 2 ^ 53)"
  using r fdiv_fl_rnd_err[OF acc]
  by (auto simp: hemat_of_shares_fl_def ebind_Inr_iff split: if_splits)

lemma hemat_of_shares_fl_both:
  assumes acc: "accurate ar" and r: "hemat_of_shares_fl ar sa sb q fa fb = Inr (ha0, hb0)"
    and "rnd ar (1 / 10 ^ 36) \<le> fa" and "rnd ar (1 / 10 ^ 36) \<le> fb"
  shows "\<bar>ha0 * fa - sa * q\<bar> \<le> 3 * \<bar>sa * q\<bar> / 2 ^ 53 \<and>
         \<bar>hb0 * fb - sb * q\<bar> \<le> 3 * \<bar>sb * q\<bar> / 2 ^ 53"
  using r assms(3,4) fdiv_fl_rnd_err[OF acc]
  by (auto simp: hemat_of_shares_fl_def ebind_Inr_iff split: if_splits)

lemma saturation_fl_none:
  "hb0 < rnd ar (99 / 100) \<Longrightarrow> ha0 < rnd ar (99 / 100) \<Longrightarrow>
   saturation_fl ar ha0 hb0 sa sb q fa fb = Inr (ha0, hb0)"
  by (simp add: saturation_fl_def)

lemma saturation_fl_b:
  assumes acc: "accurate ar" and r: "saturation_fl ar ha0 hb0 sa sb q fa fb = Inr (ha, hb)"
    and b: "rnd ar (99 / 100) \<le> hb0"
    and pre: "\<bar>hb0 * fb - sb * q\<bar> \<le> 3 * \<bar>sb * q\<bar> / 2 ^ 53"
  shows "\<bar>hb - rnd ar (99 / 100)\<bar> \<le> (1 + hb0) / 2 ^ 49 \<and>
         \<bar>ha * fa + hb * fb - (sa + sb) * q\<bar> \<le> 16 * (\<bar>sa * q\<bar> + \<bar>sb * q\<bar>) / 2 ^ 53"
proof -
  from r b obtain s where
    s: "fdiv_fl ar (rnd ar (rnd ar (hb0 - rnd ar (99 / 100)) * fb)) q = Inr s" and
    ha: "fdiv_fl ar (rnd ar (rnd ar (sa + s) * q)) fa = Inr ha" and
    hb: "fdiv_fl ar (rnd ar (rnd ar (sb - s) * q)) fb = Inr hb"
    by (auto simp: saturation_fl_def ebind_Inr_iff)
  from clamp_core[OF acc refl b pre s hb ha] show ?thesis by (simp add: algebra_simps)
qed

lemma saturation_fl_a:
  assumes acc: "accurate ar" and r: "saturation_fl ar ha0 hb0 sa sb q fa fb = Inr (ha, hb)"
    and b: "hb0 < rnd ar (99 / 100)" and a: "rnd ar (99 / 100) \<le> ha0"
    and pre: "\<bar>ha0 * fa - sa * q\<bar> \<le> 3 * \<bar>sa * q\<bar> / 2 ^ 53"
  shows "\<bar>ha - rnd ar (99 / 100)\<bar> \<le> (1 + ha0) / 2 ^ 49 \<and>
         \<bar>ha * fa + hb * fb - (sa + sb) * q\<bar> \<le> 16 * (\<bar>sa * q\<bar> + \<bar>sb * q\<bar>) / 2 ^ 53"
proof -
  from r b a obtain s where
    s: "fdiv_fl ar (rnd ar (rnd ar (ha0 - rnd ar (99 / 100)) * fa)) q = Inr s" and
    ha: "fdiv_fl ar (rnd ar (rnd ar (sa - s) * q)) fa = Inr ha" and
    hb: "fdiv_fl ar (rnd ar (rnd ar (sb + s) * q)) fb = Inr hb"
    by (auto simp: saturation_fl_def ebind_Inr_iff)
  from clamp_core[OF acc refl a pre s ha hb] show ?thesis by (simp add: algebra_simps)
qed

lemma get_erythrocyte_fraction_fl_stages:
  assumes "rbc_shares_fl ar hp dp da db fa fb = Inr (sa, sb)"
    and "hemat_of_shares_fl ar sa sb (rnd ar (hp * fp)) fa fb = Inr (ha0, hb0)"
    and "saturation_fl ar ha0 hb0 sa sb (rnd ar (hp * fp)) fa fb = Inr (ha, hb)"
  shows "get_erythrocyte_fraction_fl ar hp dp da db fp fa fb =
           (if ha \<ge> 1 \<or> hb \<ge> 1 then Inl SystemExit else Inr (ha, hb))"
  using assms by (simp add: get_erythrocyte_fraction_fl_def ebind_def)

lemma get_erythrocyte_fraction_fl_InrE:
  assumes "get_erythrocyte_fraction_fl ar hp dp da db fp fa fb = Inr (ha, hb)"
  obtains sa sb ha0 hb0 where "rbc_shares_fl ar hp dp da db fa fb = Inr (sa, sb)"
    and "hemat_of_shares_fl ar sa sb (rnd ar (hp * fp)) fa fb = Inr (ha0, hb0)"
    and "saturation_fl ar ha0 hb0 sa sb (rnd ar (hp * fp)) fa fb = Inr (ha, hb)"
    and "ha < 1" and "hb < 1"
  using assms
  by (auto simp: get_erythrocyte_fraction_fl_def ebind_def Let_def
      split: sum.splits if_splits prod.splits)

lemma flux_rounding:
  assumes acc: "accurate ar"
    and s: "rbc_shares_fl ar hp dp da db fa fb = Inr (sa, sb)"
    and e: "\<bar>ha * fa + hb * fb - (sa + sb) * rnd ar (hp * fp)\<bar>
              \<le> 16 * (\<bar>sa * rnd ar (hp * fp)\<bar> + \<bar>sb * rnd ar (hp * fp)\<bar>) / 2 ^ 53"
  shows "\<bar>ha * fa + hb * fb - hp * fp\<bar> \<le> \<bar>hp * fp\<bar> / 2 ^ 48"
proof -
  define Q where "Q = hp * fp"
  define q where "q = rnd ar Q"
  define fl where "fl = ha * fa + hb * fb"
  define aQ where "aQ = \<bar>Q\<bar>"
  define aq where "aq = \<bar>q\<bar>"
  define m where "m = \<bar>sa\<bar> + \<bar>sb\<bar>"
  define d1 where "d1 = \<bar>fl - (sa + sb) * q\<bar>"
  define d2 where "d2 = \<bar>(sa + sb) * q - q\<bar>"
  define d3 where "d3 = \<bar>q - Q\<bar>"
  have sh: "m \<le> 9 / 8" "\<bar>sa + sb - 1\<bar> \<le> 1 / 2 ^ 53"
    using rbc_shares_fl_range[OF acc s] by (simp_all add: m_def)
  have nn: "0 \<le> aQ" "0 \<le> aq" "0 \<le> m" by (simp_all add: aQ_def aq_def m_def)
  have f3: "d3 \<le> aQ / 2 ^ 53" unfolding d3_def q_def aQ_def by (rule rnd_err[OF acc])
  have t3: "aq \<le> aQ + d3" unfolding aq_def aQ_def d3_def by argo
  have "d1 \<le> 16 * (m * aq) / 2 ^ 53"
    using e by (simp add: d1_def fl_def q_def Q_def m_def aq_def abs_mult algebra_simps)
  moreover have "m * aq \<le> 9 / 8 * aq" using sh(1) nn by (intro mult_right_mono) simp_all
  ultimately have f1: "d1 \<le> 18 * aq / 2 ^ 53" unfolding power_values by argo
  have "(sa + sb) * q - q = (sa + sb - 1) * q" by (simp add: algebra_simps)
  then have "d2 = \<bar>sa + sb - 1\<bar> * aq" by (simp add: d2_def aq_def abs_mult)
  also have "\<dots> \<le> 1 / 2 ^ 53 * aq" using sh(2) nn by (intro mult_right_mono) simp_all
  finally have f2: "d2 \<le> aq / 2 ^ 53" by simp
  have "fl - Q = (fl - (sa + sb) * q) + ((sa + sb) * q - q) + (q - Q)" by simp
  then have "\<bar>fl - Q\<bar> \<le> d1 + d2 + d3"
    unfolding d1_def d2_def d3_def using abs3[of "fl - (sa + sb) * q" "(sa + sb) * q - q" "q - Q"]
    by (simp only:)
  moreover have "d1 + d2 + d3 \<le> aQ / 2 ^ 48" using f1 f2 f3 t3 nn unfolding power_values by argo
  ultimately show ?thesis by (simp add: fl_def Q_def aQ_def)
qed

text \<open>
  The values of \<open>f64\<close> at the numbers met in the examples below, each from
  \<open>f64_eval\<close> with the exponent of the number, and the stages of the law in binary64 on
  seven inputs. The diameters are powers of two, so that their conversion to micrometres is
  exact, and the daughters have equal diameters, so that \<open>A\<close> is 0. In all seven the
  fractional flow of daughter a lies in an outer region of the law.
  \<^item> \<open>large\<close>: parent haematocrit 0.5, flows \<open>3 * 2 ^ 44\<close> and \<open>2 ^ 44\<close>.
  \<^item> \<open>clamp\<close>: parent haematocrit 0.875, flows 0.25 and 0.75; daughter b is saturated.
  \<^item> \<open>clamp_a\<close>: the same with the flows exchanged; daughter a is saturated.
  \<^item> \<open>over\<close>: parent haematocrit 0.5, parent flow 4, flows 1 and 1.
  \<^item> \<open>even\<close>: parent haematocrit 0.5, parent flow 1, flows 0.5 and 0.5.
  \<^item> \<open>cancel\<close>: parent haematocrit 0.3125, parent flow 0.625, flows 0.625 and
    \<open>11 * 2 ^ -61\<close>, whose float sum is the parent flow.
  \<^item> \<open>minus\<close>: parent haematocrit -0.375, parent flow 2, flows 1 and 1.
\<close>

lemma f64_value_1: "f64 (1 / 1000000000000000000000000000000000000) = 2993155353253689 / 2 ^ 171"
  by (subst f64_eval[where e = "-120"]) (simp_all add: rne_def Let_def power_int_minus)

lemma f64_value_2: "f64 (11 / 1441151880758558720) = 2476979795053773 / 2 ^ 108"
  by (subst f64_eval[where e = "-57"]) (simp_all add: rne_def Let_def power_int_minus)

lemma f64_value_3: "f64 (- (25 / 576460752303423488)) = - (25 / 2 ^ 59)"
  by (subst f64_eval[where e = "-55"]) (simp_all add: rne_def Let_def power_int_minus)

lemma f64_value_4: "f64 (- (1 / 4503599627370496)) = - (1 / 2 ^ 52)"
  by (subst f64_eval[where e = "-52"]) (simp_all add: rne_def Let_def power_int_minus)

lemma f64_value_5: "f64 (45035996273705 / 9007199254740992) = 45035996273705 / 2 ^ 53"
  by (subst f64_eval[where e = "-8"]) (simp_all add: rne_def Let_def power_int_minus)

lemma f64_value_6: "f64 (45035996273705 / 4503599627370496) = 45035996273705 / 2 ^ 52"
  by (subst f64_eval[where e = "-7"]) (simp_all add: rne_def Let_def power_int_minus)

lemma f64_value_7: "f64 (244140625 / 17179869184) = 244140625 / 2 ^ 34"
  by (subst f64_eval[where e = "-7"]) (simp_all add: rne_def Let_def power_int_minus)

lemma f64_value_8: "f64 (244140625 / 8589934592) = 244140625 / 2 ^ 33"
  by (subst f64_eval[where e = "-6"]) (simp_all add: rne_def Let_def power_int_minus)

lemma f64_value_9: "f64 (15625 / 131072) = 15625 / 2 ^ 17"
  by (subst f64_eval[where e = "-4"]) (simp_all add: rne_def Let_def power_int_minus)

lemma f64_value_10: "f64 (1 / 8) = 1 / 8"
  by (subst f64_eval[where e = "-3"]) (simp_all add: rne_def Let_def power_int_minus)

lemma f64_value_11: "f64 (38190524840101823 / 288230376151711744) = 596726950626591 / 2 ^ 52"
  by (subst f64_eval[where e = "-3"]) (simp_all add: rne_def Let_def power_int_minus)

lemma f64_value_12: "f64 (596726950626591 / 4503599627370496) = 596726950626591 / 2 ^ 52"
  by (subst f64_eval[where e = "-3"]) (simp_all add: rne_def Let_def power_int_minus)

lemma f64_value_13: "f64 (1261007895663739 / 9007199254740992) = 1261007895663739 / 2 ^ 53"
  by (subst f64_eval[where e = "-3"]) (simp_all add: rne_def Let_def power_int_minus)

lemma f64_value_14: "f64 (5455789262871689 / 36028797018963968) = 5455789262871689 / 2 ^ 55"
  by (subst f64_eval[where e = "-3"]) (simp_all add: rne_def Let_def power_int_minus)

lemma f64_value_15: "f64 (596726950626591 / 3940649673949184) = 5455789262871689 / 2 ^ 55"
  by (subst f64_eval[where e = "-3"]) (simp_all add: rne_def Let_def power_int_minus)

lemma f64_value_16: "f64 (198908983542197 / 1125899906842624) = 198908983542197 / 2 ^ 50"
  by (subst f64_eval[where e = "-3"]) (simp_all add: rne_def Let_def power_int_minus)

lemma f64_value_17: "f64 (25 / 128) = 25 / 128"
  by (subst f64_eval[where e = "-3"]) (simp_all add: rne_def Let_def power_int_minus)

lemma f64_value_18: "f64 (56294995342131205 / 288230376151711744) = 7036874417766401 / 2 ^ 55"
  by (subst f64_eval[where e = "-3"]) (simp_all add: rne_def Let_def power_int_minus)

lemma f64_value_19: "f64 (112589990684262425 / 576460752303423488) = 3518437208883201 / 2 ^ 54"
  by (subst f64_eval[where e = "-3"]) (simp_all add: rne_def Let_def power_int_minus)

lemma f64_value_20: "f64 (244140625 / 1073741824) = 244140625 / 2 ^ 30"
  by (subst f64_eval[where e = "-3"]) (simp_all add: rne_def Let_def power_int_minus)

lemma f64_value_21: "f64 (1 / 4) = 1 / 4"
  by (subst f64_eval[where e = "-2"]) (simp_all add: rne_def Let_def power_int_minus)

lemma f64_value_22: "f64 (1261007895663739 / 4294967296000000) = 5289050460814003 / 2 ^ 54"
  by (subst f64_eval[where e = "-2"]) (simp_all add: rne_def Let_def power_int_minus)

lemma f64_value_23: "f64 (3518437208883201 / 11258999068426240) = 2814749767106561 / 2 ^ 53"
  by (subst f64_eval[where e = "-2"]) (simp_all add: rne_def Let_def power_int_minus)

lemma f64_value_24: "f64 (3718148793926989 / 9007199254740992) = 3718148793926989 / 2 ^ 53"
  by (subst f64_eval[where e = "-2"]) (simp_all add: rne_def Let_def power_int_minus)

lemma f64_value_25: "f64 (244140625 / 536870912) = 244140625 / 2 ^ 29"
  by (subst f64_eval[where e = "-2"]) (simp_all add: rne_def Let_def power_int_minus)

lemma f64_value_26: "f64 (15625 / 32768) = 15625 / 2 ^ 15"
  by (subst f64_eval[where e = "-2"]) (simp_all add: rne_def Let_def power_int_minus)

lemma f64_value_27: "f64 (4458563631096791 / 9007199254740992) = 4458563631096791 / 2 ^ 53"
  by (subst f64_eval[where e = "-2"]) (simp_all add: rne_def Let_def power_int_minus)

lemma f64_value_28: "f64 (1 / 2) = 1 / 2"
  by (subst f64_eval[where e = "-1"]) (simp_all add: rne_def Let_def power_int_minus)

lemma f64_value_29: "f64 (4548635623644201 / 9007199254740992) = 4548635623644201 / 2 ^ 53"
  by (subst f64_eval[where e = "-1"]) (simp_all add: rne_def Let_def power_int_minus)

lemma f64_value_30: "f64 (596726950626591 / 1125899906842624) = 596726950626591 / 2 ^ 50"
  by (subst f64_eval[where e = "-1"]) (simp_all add: rne_def Let_def power_int_minus)

lemma f64_value_31: "f64 (1261007895663739 / 2251799813685248) = 1261007895663739 / 2 ^ 51"
  by (subst f64_eval[where e = "-1"]) (simp_all add: rne_def Let_def power_int_minus)

lemma f64_value_32: "f64 (1261007895663739 / 2147483648000000) = 5289050460814003 / 2 ^ 53"
  by (subst f64_eval[where e = "-1"]) (simp_all add: rne_def Let_def power_int_minus)

lemma f64_value_33: "f64 (1441151880758558731 / 2305843009213693952) = 5 / 8"
  by (subst f64_eval[where e = "-1"]) (simp_all add: rne_def Let_def power_int_minus)

lemma f64_value_34: "f64 (2 / 3) = 6004799503160661 / 2 ^ 53"
  by (subst f64_eval[where e = "-1"]) (simp_all add: rne_def Let_def power_int_minus)

lemma f64_value_35: "f64 (11 / 16) = 11 / 16"
  by (subst f64_eval[where e = "-1"]) (simp_all add: rne_def Let_def power_int_minus)

lemma f64_value_36: "f64 (12725348048667981 / 18014398509481984) = 3181337012166995 / 2 ^ 52"
  by (subst f64_eval[where e = "-1"]) (simp_all add: rne_def Let_def power_int_minus)

lemma f64_value_37: "f64 (26751381786580745 / 36028797018963968) = 3343922723322593 / 2 ^ 52"
  by (subst f64_eval[where e = "-1"]) (simp_all add: rne_def Let_def power_int_minus)

lemma f64_value_38: "f64 (- (3 / 4)) = - (3 / 4)"
  by (subst f64_eval[where e = "-1"]) (simp_all add: rne_def Let_def power_int_minus)

lemma f64_value_39: "f64 (3 / 4) = 3 / 4"
  by (subst f64_eval[where e = "-1"]) (simp_all add: rne_def Let_def power_int_minus)

lemma f64_value_40: "f64 (13871086852301129 / 18014398509481984) = 1733885856537641 / 2 ^ 51"
  by (subst f64_eval[where e = "-1"]) (simp_all add: rne_def Let_def power_int_minus)

lemma f64_value_41: "f64 (30573007756092279 / 36028797018963968) = 3821625969511535 / 2 ^ 52"
  by (subst f64_eval[where e = "-1"]) (simp_all add: rne_def Let_def power_int_minus)

lemma f64_value_42: "f64 (7 / 8) = 7 / 8"
  by (subst f64_eval[where e = "-1"]) (simp_all add: rne_def Let_def power_int_minus)

lemma f64_value_43: "f64 (244140625 / 268435456) = 244140625 / 2 ^ 28"
  by (subst f64_eval[where e = "-1"]) (simp_all add: rne_def Let_def power_int_minus)

lemma f64_value_44: "f64 (15625 / 16384) = 15625 / 2 ^ 14"
  by (subst f64_eval[where e = "-1"]) (simp_all add: rne_def Let_def power_int_minus)

lemma f64_value_45: "f64 (3343922723322593 / 3377699720527872) = 8917127262193581 / 2 ^ 53"
  by (subst f64_eval[where e = "-1"]) (simp_all add: rne_def Let_def power_int_minus)

lemma f64_value_46: "f64 (4458563631096791 / 4503599627370496) = 4458563631096791 / 2 ^ 52"
  by (subst f64_eval[where e = "-1"]) (simp_all add: rne_def Let_def power_int_minus)

lemma f64_value_47: "f64 (99 / 100) = 4458563631096791 / 2 ^ 52"
  by (subst f64_eval[where e = "-1"]) (simp_all add: rne_def Let_def power_int_minus)

lemma f64_value_48: "f64 1 = 1"
  by (subst f64_eval[where e = "0"]) (simp_all add: rne_def Let_def power_int_minus)

lemma f64_value_49: "f64 (7036874417766401 / 7036874417766400) = 4503599627370497 / 2 ^ 52"
  by (subst f64_eval[where e = "0"]) (simp_all add: rne_def Let_def power_int_minus)

lemma f64_value_50: "f64 (4503599627370497 / 4503599627370496) = 4503599627370497 / 2 ^ 52"
  by (subst f64_eval[where e = "0"]) (simp_all add: rne_def Let_def power_int_minus)

lemma f64_value_51: "f64 (4548635623644201 / 4503599627370496) = 4548635623644201 / 2 ^ 52"
  by (subst f64_eval[where e = "0"]) (simp_all add: rne_def Let_def power_int_minus)

lemma f64_value_52: "f64 (4576783121315267 / 4503599627370496) = 4576783121315267 / 2 ^ 52"
  by (subst f64_eval[where e = "0"]) (simp_all add: rne_def Let_def power_int_minus)

lemma f64_value_53: "f64 (28 / 25) = 1261007895663739 / 2 ^ 50"
  by (subst f64_eval[where e = "0"]) (simp_all add: rne_def Let_def power_int_minus)

lemma f64_value_54: "f64 (7 / 6) = 5254199565265579 / 2 ^ 52"
  by (subst f64_eval[where e = "0"]) (simp_all add: rne_def Let_def power_int_minus)

lemma f64_value_55: "f64 (11 / 8) = 11 / 8"
  by (subst f64_eval[where e = "0"]) (simp_all add: rne_def Let_def power_int_minus)

lemma f64_value_56: "f64 (13871086852301129 / 9007199254740992) = 1733885856537641 / 2 ^ 50"
  by (subst f64_eval[where e = "0"]) (simp_all add: rne_def Let_def power_int_minus)

lemma f64_value_57: "f64 (1733885856537641 / 1073741824000000) = 3636222191809627 / 2 ^ 51"
  by (subst f64_eval[where e = "0"]) (simp_all add: rne_def Let_def power_int_minus)

lemma f64_value_58: "f64 (244140625 / 134217728) = 244140625 / 2 ^ 27"
  by (subst f64_eval[where e = "0"]) (simp_all add: rne_def Let_def power_int_minus)

lemma f64_value_59: "f64 2 = 2"
  by (subst f64_eval[where e = "1"]) (simp_all add: rne_def Let_def power_int_minus)

lemma f64_value_60: "f64 (4576783121315267 / 2147483648000000) = 4799104938216277 / 2 ^ 51"
  by (subst f64_eval[where e = "1"]) (simp_all add: rne_def Let_def power_int_minus)

lemma f64_value_61: "f64 (7050904751901525 / 2251799813685248) = 7050904751901525 / 2 ^ 51"
  by (subst f64_eval[where e = "1"]) (simp_all add: rne_def Let_def power_int_minus)

lemma f64_value_62: "f64 (4576783121315267 / 1125899906842624) = 4576783121315267 / 2 ^ 50"
  by (subst f64_eval[where e = "2"]) (simp_all add: rne_def Let_def power_int_minus)

lemma f64_value_63: "f64 (4576783121315267 / 1073741824000000) = 4799104938216277 / 2 ^ 50"
  by (subst f64_eval[where e = "2"]) (simp_all add: rne_def Let_def power_int_minus)

lemma f64_value_64: "f64 (5925004845058901 / 1125899906842624) = 5925004845058901 / 2 ^ 50"
  by (subst f64_eval[where e = "2"]) (simp_all add: rne_def Let_def power_int_minus)

lemma f64_value_65: "f64 (50344614334467937 / 9007199254740992) = 1573269197952123 / 2 ^ 48"
  by (subst f64_eval[where e = "2"]) (simp_all add: rne_def Let_def power_int_minus)

lemma f64_value_66: "f64 (1733885856537641 / 268435456000000) = 3636222191809627 / 2 ^ 49"
  by (subst f64_eval[where e = "2"]) (simp_all add: rne_def Let_def power_int_minus)

lemma f64_value_67: "f64 (813 / 100) = 4576783121315267 / 2 ^ 49"
  by (subst f64_eval[where e = "3"]) (simp_all add: rne_def Let_def power_int_minus)

lemma f64_value_68: "f64 (- (100 / 11)) = - (5117726849284655 / 2 ^ 49)"
  by (subst f64_eval[where e = "3"]) (simp_all add: rne_def Let_def power_int_minus)

lemma f64_value_69: "f64 (50344614334467937 / 4503599627370496) = 1573269197952123 / 2 ^ 47"
  by (subst f64_eval[where e = "3"]) (simp_all add: rne_def Let_def power_int_minus)

lemma f64_value_70: "f64 (1573269197952123 / 134217728000000) = 6598769290047381 / 2 ^ 49"
  by (subst f64_eval[where e = "3"]) (simp_all add: rne_def Let_def power_int_minus)

lemma f64_value_71: "f64 (7161719243468693 / 562949953421312) = 7161719243468693 / 2 ^ 49"
  by (subst f64_eval[where e = "3"]) (simp_all add: rne_def Let_def power_int_minus)

lemma f64_value_72: "f64 (1547 / 100) = 8708835779427697 / 2 ^ 49"
  by (subst f64_eval[where e = "3"]) (simp_all add: rne_def Let_def power_int_minus)

lemma f64_value_73: "f64 (1573269197952123 / 33554432000000) = 6598769290047381 / 2 ^ 47"
  by (subst f64_eval[where e = "5"]) (simp_all add: rne_def Let_def power_int_minus)

lemma f64_value_74: "f64 (6739506778402709 / 140737488355328) = 6739506778402709 / 2 ^ 47"
  by (subst f64_eval[where e = "5"]) (simp_all add: rne_def Let_def power_int_minus)

lemma f64_value_75: "f64 35184372088832 = 35184372088832"
  by (subst f64_eval[where e = "45"]) (simp_all add: rne_def Let_def power_int_minus)

lemma f64_value_76: "f64 70368744177664 = 70368744177664"
  by (subst f64_eval[where e = "46"]) (simp_all add: rne_def Let_def power_int_minus)

lemma f64_value_77: "f64 (450359962737049600 / 11) = 40941814794277240"
  by (subst f64_eval[where e = "55"]) (simp_all add: rne_def Let_def power_int_minus)

lemma f64_value_78: "f64 (184385541851378833954046389214249 / 4503599627370496) = 40941814794277240"
  by (subst f64_eval[where e = "55"]) (simp_all add: rne_def Let_def power_int_minus)

lemmas f64_values =
  f64_value_1 f64_value_2 f64_value_3 f64_value_4 f64_value_5 f64_value_6 f64_value_7
  f64_value_8 f64_value_9 f64_value_10 f64_value_11 f64_value_12 f64_value_13 f64_value_14
  f64_value_15 f64_value_16 f64_value_17 f64_value_18 f64_value_19 f64_value_20 f64_value_21
  f64_value_22 f64_value_23 f64_value_24 f64_value_25 f64_value_26 f64_value_27 f64_value_28
  f64_value_29 f64_value_30 f64_value_31 f64_value_32 f64_value_33 f64_value_34 f64_value_35
  f64_value_36 f64_value_37 f64_value_38 f64_value_39 f64_value_40 f64_value_41 f64_value_42
  f64_value_43 f64_value_44 f64_value_45 f64_value_46 f64_value_47 f64_value_48 f64_value_49
  f64_value_50 f64_value_51 f64_value_52 f64_value_53 f64_value_54 f64_value_55 f64_value_56
  f64_value_57 f64_value_58 f64_value_59 f64_value_60 f64_value_61 f64_value_62 f64_value_63
  f64_value_64 f64_value_65 f64_value_66 f64_value_67 f64_value_68 f64_value_69 f64_value_70
  f64_value_71 f64_value_72 f64_value_73 f64_value_74 f64_value_75 f64_value_76 f64_value_77
  f64_value_78

lemma large_nd:
  "non_dimentional_param_fl float64 (1 / 2) (1 / 1048576) (1 / 1048576) (1 / 1048576)
     = Inr (5289050460814003 / 2 ^ 53, 0, 5925004845058901 / 2 ^ 50)"
  by (simp add: non_dimentional_param_fl_def fdiv_fl_def ebind_def x_o_init_def A_o_init_def
      B_o_init_def Let_def float64_sel f64_zero power_divide f64_values)

lemma large_shares:
  "rbc_shares_fl float64 (1 / 2) (1 / 1048576) (1 / 1048576) (1 / 1048576) 52776558133248 17592186044416
     = Inr (1, 0)"
  by (simp add: rbc_shares_fl_def large_nd fractional_qRBC_fl_def fdiv_fl_def ebind_def float64_sel
      f64_values)

lemma large_hemat:
  "hemat_of_shares_fl float64 1 0 35184372088832 52776558133248 17592186044416
     = Inr (6004799503160661 / 2 ^ 53, 0)"
  by (simp add: hemat_of_shares_fl_def fdiv_fl_def ebind_def float64_sel f64_zero f64_values)

lemma large_saturation:
  "saturation_fl float64 (6004799503160661 / 9007199254740992) 0 1 0
       35184372088832 52776558133248 17592186044416
     = Inr (6004799503160661 / 2 ^ 53, 0)"
  by (simp add: saturation_fl_def fdiv_fl_def ebind_def float64_sel f64_zero f64_values)

lemma large_law:
  "get_erythrocyte_fraction_fl float64 (1 / 2) (1 / 1048576) (1 / 1048576) (1 / 1048576)
       70368744177664 52776558133248 17592186044416
     = Inr (6004799503160661 / 2 ^ 53, 0)"
  by (simp add: get_erythrocyte_fraction_fl_def Let_def ebind_def float64_sel f64_values
      large_shares large_hemat large_saturation)

lemma clamp_nd:
  "non_dimentional_param_fl float64 (7 / 8) (1 / 2097152) (1 / 2097152) (1 / 2097152)
     = Inr (5289050460814003 / 2 ^ 54, 0, 7050904751901525 / 2 ^ 51)"
  by (simp add: non_dimentional_param_fl_def fdiv_fl_def ebind_def x_o_init_def A_o_init_def
      B_o_init_def Let_def float64_sel f64_zero power_divide f64_values)

lemma clamp_shares:
  "rbc_shares_fl float64 (7 / 8) (1 / 2097152) (1 / 2097152) (1 / 2097152) (1 / 4) (3 / 4)
     = Inr (0, 1)"
  by (simp add: rbc_shares_fl_def clamp_nd fractional_qRBC_fl_def fdiv_fl_def ebind_def float64_sel
      f64_values)

lemma clamp_hemat:
  "hemat_of_shares_fl float64 0 1 (7 / 8) (1 / 4) (3 / 4)
     = Inr (0, 5254199565265579 / 2 ^ 52)"
  by (simp add: hemat_of_shares_fl_def fdiv_fl_def ebind_def float64_sel f64_zero f64_values)

lemma clamp_saturation:
  "saturation_fl float64 0 (5254199565265579 / 4503599627370496) 0 1
       (7 / 8) (1 / 4) (3 / 4)
     = Inr (596726950626591 / 2 ^ 50, 8917127262193581 / 2 ^ 53)"
  by (simp add: saturation_fl_def fdiv_fl_def ebind_def float64_sel f64_zero f64_values)

lemma clamp_law:
  "get_erythrocyte_fraction_fl float64 (7 / 8) (1 / 2097152) (1 / 2097152) (1 / 2097152)
       1 (1 / 4) (3 / 4)
     = Inr (596726950626591 / 2 ^ 50, 8917127262193581 / 2 ^ 53)"
  by (simp add: get_erythrocyte_fraction_fl_def Let_def ebind_def float64_sel f64_values
      clamp_shares clamp_hemat clamp_saturation)

lemma clamp_a_nd:
  "non_dimentional_param_fl float64 (7 / 8) (1 / 2097152) (1 / 2097152) (1 / 2097152)
     = Inr (5289050460814003 / 2 ^ 54, 0, 7050904751901525 / 2 ^ 51)"
  by (simp add: non_dimentional_param_fl_def fdiv_fl_def ebind_def x_o_init_def A_o_init_def
      B_o_init_def Let_def float64_sel f64_zero power_divide f64_values)

lemma clamp_a_shares:
  "rbc_shares_fl float64 (7 / 8) (1 / 2097152) (1 / 2097152) (1 / 2097152) (3 / 4) (1 / 4)
     = Inr (1, 0)"
  by (simp add: rbc_shares_fl_def clamp_a_nd fractional_qRBC_fl_def fdiv_fl_def ebind_def float64_sel
      f64_values)

lemma clamp_a_hemat:
  "hemat_of_shares_fl float64 1 0 (7 / 8) (3 / 4) (1 / 4)
     = Inr (5254199565265579 / 2 ^ 52, 0)"
  by (simp add: hemat_of_shares_fl_def fdiv_fl_def ebind_def float64_sel f64_zero f64_values)

lemma clamp_a_saturation:
  "saturation_fl float64 (5254199565265579 / 4503599627370496) 0 1 0
       (7 / 8) (3 / 4) (1 / 4)
     = Inr (8917127262193581 / 2 ^ 53, 596726950626591 / 2 ^ 50)"
  by (simp add: saturation_fl_def fdiv_fl_def ebind_def float64_sel f64_zero f64_values)

lemma clamp_a_law:
  "get_erythrocyte_fraction_fl float64 (7 / 8) (1 / 2097152) (1 / 2097152) (1 / 2097152)
       1 (3 / 4) (1 / 4)
     = Inr (8917127262193581 / 2 ^ 53, 596726950626591 / 2 ^ 50)"
  by (simp add: get_erythrocyte_fraction_fl_def Let_def ebind_def float64_sel f64_values
      clamp_a_shares clamp_a_hemat clamp_a_saturation)

lemma over_nd:
  "non_dimentional_param_fl float64 (1 / 2) (1 / 1048576) (1 / 1048576) (1 / 1048576)
     = Inr (5289050460814003 / 2 ^ 53, 0, 5925004845058901 / 2 ^ 50)"
  by (simp add: non_dimentional_param_fl_def fdiv_fl_def ebind_def x_o_init_def A_o_init_def
      B_o_init_def Let_def float64_sel f64_zero power_divide f64_values)

lemma over_shares:
  "rbc_shares_fl float64 (1 / 2) (1 / 1048576) (1 / 1048576) (1 / 1048576) 1 1
     = Inr (0, 1)"
  by (simp add: rbc_shares_fl_def over_nd fractional_qRBC_fl_def fdiv_fl_def ebind_def float64_sel
      f64_values)

lemma over_hemat:
  "hemat_of_shares_fl float64 0 1 2 1 1
     = Inr (0, 2)"
  by (simp add: hemat_of_shares_fl_def fdiv_fl_def ebind_def float64_sel f64_zero f64_values)

lemma over_saturation:
  "saturation_fl float64 0 2 0 1
       2 1 1
     = Inr (4548635623644201 / 2 ^ 52, 4458563631096791 / 2 ^ 52)"
  by (simp add: saturation_fl_def fdiv_fl_def ebind_def float64_sel f64_zero f64_values)

lemma over_law:
  "get_erythrocyte_fraction_fl float64 (1 / 2) (1 / 1048576) (1 / 1048576) (1 / 1048576)
       4 1 1
     = Inl SystemExit"
  by (simp add: get_erythrocyte_fraction_fl_def Let_def ebind_def float64_sel f64_values
      over_shares over_hemat over_saturation)

lemma even_nd:
  "non_dimentional_param_fl float64 (1 / 2) (1 / 1048576) (1 / 1048576) (1 / 1048576)
     = Inr (5289050460814003 / 2 ^ 53, 0, 5925004845058901 / 2 ^ 50)"
  by (simp add: non_dimentional_param_fl_def fdiv_fl_def ebind_def x_o_init_def A_o_init_def
      B_o_init_def Let_def float64_sel f64_zero power_divide f64_values)

lemma even_shares:
  "rbc_shares_fl float64 (1 / 2) (1 / 1048576) (1 / 1048576) (1 / 1048576) (1 / 2) (1 / 2)
     = Inr (0, 1)"
  by (simp add: rbc_shares_fl_def even_nd fractional_qRBC_fl_def fdiv_fl_def ebind_def float64_sel
      f64_values)

lemma even_hemat:
  "hemat_of_shares_fl float64 0 1 (1 / 2) (1 / 2) (1 / 2)
     = Inr (0, 1)"
  by (simp add: hemat_of_shares_fl_def fdiv_fl_def ebind_def float64_sel f64_zero f64_values)

lemma even_saturation:
  "saturation_fl float64 0 1 0 1
       (1 / 2) (1 / 2) (1 / 2)
     = Inr (45035996273705 / 2 ^ 52, 4458563631096791 / 2 ^ 52)"
  by (simp add: saturation_fl_def fdiv_fl_def ebind_def float64_sel f64_zero f64_values)

lemma even_law:
  "get_erythrocyte_fraction_fl float64 (1 / 2) (1 / 1048576) (1 / 1048576) (1 / 1048576)
       1 (1 / 2) (1 / 2)
     = Inr (45035996273705 / 2 ^ 52, 4458563631096791 / 2 ^ 52)"
  by (simp add: get_erythrocyte_fraction_fl_def Let_def ebind_def float64_sel f64_values
      even_shares even_hemat even_saturation)

lemma cancel_nd:
  "non_dimentional_param_fl float64 (5 / 16) (1 / 8388608) (1 / 8388608) (1 / 8388608)
     = Inr (3636222191809627 / 2 ^ 49, 0, 6739506778402709 / 2 ^ 47)"
  by (simp add: non_dimentional_param_fl_def fdiv_fl_def ebind_def x_o_init_def A_o_init_def
      B_o_init_def Let_def float64_sel f64_zero power_divide f64_values)

lemma cancel_shares:
  "rbc_shares_fl float64 (5 / 16) (1 / 8388608) (1 / 8388608) (1 / 8388608) (5 / 8) (11 / 2305843009213693952)
     = Inr (0, 1)"
  by (simp add: rbc_shares_fl_def cancel_nd fractional_qRBC_fl_def fdiv_fl_def ebind_def float64_sel
      f64_values)

lemma cancel_hemat:
  "hemat_of_shares_fl float64 0 1 (25 / 128) (5 / 8) (11 / 2305843009213693952)
     = Inr (0, 40941814794277240)"
  by (simp add: hemat_of_shares_fl_def fdiv_fl_def ebind_def float64_sel f64_zero f64_values)

lemma cancel_saturation:
  "saturation_fl float64 0 40941814794277240 0 1
       (25 / 128) (5 / 8) (11 / 2305843009213693952)
     = Inr (2814749767106561 / 2 ^ 53, - (5117726849284655 / 2 ^ 49))"
  by (simp add: saturation_fl_def fdiv_fl_def ebind_def float64_sel f64_zero f64_values)

lemma cancel_law:
  "get_erythrocyte_fraction_fl float64 (5 / 16) (1 / 8388608) (1 / 8388608) (1 / 8388608)
       (5 / 8) (5 / 8) (11 / 2305843009213693952)
     = Inr (2814749767106561 / 2 ^ 53, - (5117726849284655 / 2 ^ 49))"
  by (simp add: get_erythrocyte_fraction_fl_def Let_def ebind_def float64_sel f64_values
      cancel_shares cancel_hemat cancel_saturation)

lemma minus_nd:
  "non_dimentional_param_fl float64 (- (3 / 8)) (1 / 1048576) (1 / 1048576) (1 / 1048576)
     = Inr (3636222191809627 / 2 ^ 51, 0, 7161719243468693 / 2 ^ 49)"
  by (simp add: non_dimentional_param_fl_def fdiv_fl_def ebind_def x_o_init_def A_o_init_def
      B_o_init_def Let_def float64_sel f64_zero power_divide f64_values)

lemma minus_shares:
  "rbc_shares_fl float64 (- (3 / 8)) (1 / 1048576) (1 / 1048576) (1 / 1048576) 1 1
     = Inr (0, 1)"
  by (simp add: rbc_shares_fl_def minus_nd fractional_qRBC_fl_def fdiv_fl_def ebind_def float64_sel
      f64_values)

lemma minus_hemat:
  "hemat_of_shares_fl float64 0 1 (- (3 / 4)) 1 1
     = Inr (0, - (3 / 4))"
  by (simp add: hemat_of_shares_fl_def fdiv_fl_def ebind_def float64_sel f64_zero f64_values)

lemma minus_saturation:
  "saturation_fl float64 0 (- (3 / 4)) 0 1
       (- (3 / 4)) 1 1
     = Inr (0, - (3 / 4))"
  by (simp add: saturation_fl_def fdiv_fl_def ebind_def float64_sel f64_zero f64_values)

lemma minus_law:
  "get_erythrocyte_fraction_fl float64 (- (3 / 8)) (1 / 1048576) (1 / 1048576) (1 / 1048576)
       2 1 1
     = Inr (0, - (3 / 4))"
  by (simp add: get_erythrocyte_fraction_fl_def Let_def ebind_def float64_sel f64_values
      minus_shares minus_hemat minus_saturation)

text \<open>
  Claim C1, as amended. Whenever the law is called with both daughter flows at least
  \<open>1E-36\<close> and returns, the RBC flux of the two daughters,
  \<open>hemat_a * flow_a + hemat_b * flow_b\<close>, differs from the RBC flux of the parent,
  \<open>hemat_par * flow_parent\<close>, by at most \<open>2 ^ -48\<close> of the latter, in every
  arithmetic with the rounding error of binary64 (which binary64 has as long as no result
  overflows or falls into the subnormal range). The two differ by at most \<open>1E-5\<close>
  when the parent flux is at most \<open>2 ^ 48 * 1E-5\<close>, about \<open>2.8E9\<close>, and they are
  equal in exact arithmetic.
\<close>

theorem rbc_flux_conserved:
  assumes acc: "accurate ar"
    and fa: "rnd ar (1 / 10 ^ 36) \<le> flow_a" and fb: "rnd ar (1 / 10 ^ 36) \<le> flow_b"
    and g: "get_erythrocyte_fraction_fl ar hemat_par diam_par diam_a diam_b flow_parent flow_a flow_b
              = Inr (hemat_a, hemat_b)"
  shows "\<bar>hemat_a * flow_a + hemat_b * flow_b - hemat_par * flow_parent\<bar>
           \<le> \<bar>hemat_par * flow_parent\<bar> / 2 ^ 48 \<and>
         (\<bar>hemat_par * flow_parent\<bar> \<le> 2 ^ 48 / 10 ^ 5 \<longrightarrow>
            \<bar>hemat_a * flow_a + hemat_b * flow_b - hemat_par * flow_parent\<bar> \<le> 1 / 10 ^ 5) \<and>
         (ar = exact \<longrightarrow> hemat_a * flow_a + hemat_b * flow_b = hemat_par * flow_parent)"
proof -
  from g obtain sa sb ha0 hb0 where
    s: "rbc_shares_fl ar hemat_par diam_par diam_a diam_b flow_a flow_b = Inr (sa, sb)" and
    h: "hemat_of_shares_fl ar sa sb (rnd ar (hemat_par * flow_parent)) flow_a flow_b = Inr (ha0, hb0)" and
    c: "saturation_fl ar ha0 hb0 sa sb (rnd ar (hemat_par * flow_parent)) flow_a flow_b
          = Inr (hemat_a, hemat_b)"
    by (rule get_erythrocyte_fraction_fl_InrE)
  define q where "q = rnd ar (hemat_par * flow_parent)"
  note pre = hemat_of_shares_fl_both[OF acc h fa fb, folded q_def]
  have e: "\<bar>hemat_a * flow_a + hemat_b * flow_b - (sa + sb) * q\<bar>
             \<le> 16 * (\<bar>sa * q\<bar> + \<bar>sb * q\<bar>) / 2 ^ 53"
  proof (cases "rnd ar (99 / 100) \<le> hb0")
    case True
    from saturation_fl_b[OF acc c True] pre show ?thesis by (simp add: q_def)
  next
    case b: False
    show ?thesis
    proof (cases "rnd ar (99 / 100) \<le> ha0")
      case True
      from saturation_fl_a[OF acc c _ True] b pre show ?thesis by (simp add: q_def)
    next
      case False
      with b c have eq: "hemat_a = ha0" "hemat_b = hb0" by (simp_all add: saturation_fl_none)
      define da where "da = \<bar>ha0 * flow_a - sa * q\<bar>"
      define db where "db = \<bar>hb0 * flow_b - sb * q\<bar>"
      define ma where "ma = \<bar>sa * q\<bar>"
      define mb where "mb = \<bar>sb * q\<bar>"
      have "ha0 * flow_a + hb0 * flow_b - (sa + sb) * q
              = (ha0 * flow_a - sa * q) + (hb0 * flow_b - sb * q)"
        by (simp add: algebra_simps)
      then have "\<bar>ha0 * flow_a + hb0 * flow_b - (sa + sb) * q\<bar> \<le> da + db"
        unfolding da_def db_def using abs_triangle_ineq[of "ha0 * flow_a - sa * q" "hb0 * flow_b - sb * q"]
        by (simp only:)
      moreover have "da \<le> 3 * ma / 2 ^ 53" "db \<le> 3 * mb / 2 ^ 53" "0 \<le> ma" "0 \<le> mb"
        using pre by (simp_all add: da_def db_def ma_def mb_def)
      then have "da + db \<le> 16 * (ma + mb) / 2 ^ 53" unfolding power_values by argo
      ultimately show ?thesis unfolding eq ma_def mb_def by linarith
    qed
  qed
  have 1: "\<bar>hemat_a * flow_a + hemat_b * flow_b - hemat_par * flow_parent\<bar>
             \<le> \<bar>hemat_par * flow_parent\<bar> / 2 ^ 48"
    using flux_rounding[OF acc s e[unfolded q_def]] .
  have 2: "\<bar>hemat_par * flow_parent\<bar> \<le> 2 ^ 48 / 10 ^ 5 \<longrightarrow>
            \<bar>hemat_a * flow_a + hemat_b * flow_b - hemat_par * flow_parent\<bar> \<le> 1 / 10 ^ 5"
  proof
    assume "\<bar>hemat_par * flow_parent\<bar> \<le> 2 ^ 48 / 10 ^ 5"
    then have "\<bar>hemat_par * flow_parent\<bar> / 2 ^ 48 \<le> 1 / 10 ^ 5" by (simp add: field_simps)
    with 1 show "\<bar>hemat_a * flow_a + hemat_b * flow_b - hemat_par * flow_parent\<bar> \<le> 1 / 10 ^ 5"
      by (rule order_trans)
  qed
  have 3: "ar = exact \<longrightarrow> hemat_a * flow_a + hemat_b * flow_b = hemat_par * flow_parent"
  proof
    assume ex: "ar = exact"
    from g have g': "get_erythrocyte_fraction hemat_par diam_par diam_a diam_b flow_parent flow_a flow_b
                       = Inr (hemat_a, hemat_b)"
      by (simp add: ex get_erythrocyte_fraction_fl_exact)
    from fa fb have f: "1 / 10 ^ 36 \<le> flow_a" "1 / 10 ^ 36 \<le> flow_b"
      by (simp_all add: ex exact_def)
    from g' obtain xa xb ya yb where
      s': "rbc_shares hemat_par diam_par diam_a diam_b flow_a flow_b = Inr (xa, xb)" and
      h': "hemat_of_shares xa xb (hemat_par * flow_parent) flow_a flow_b = Inr (ya, yb)" and
      c': "saturation ya yb xa xb (hemat_par * flow_parent) flow_a flow_b = Inr (hemat_a, hemat_b)"
      by (rule get_erythrocyte_fraction_InrE)
    have "hemat_a * flow_a + hemat_b * flow_b = (xa + xb) * (hemat_par * flow_parent)"
      using saturation_flux[OF c' hemat_of_shares_flux[OF h' f]] .
    then show "hemat_a * flow_a + hemat_b * flow_b = hemat_par * flow_parent"
      using rbc_shares_sum[OF s'] by simp
  qed
  from 1 2 3 show ?thesis by blast
qed

text \<open>
  In binary64 on the input \<open>even\<close>, and in exact arithmetic on a split through the
  middle region of the law: parent haematocrit 0.5, parent diameter 5.6 micrometres (so
  \<open>x_0 = 0.1\<close>), equal daughter diameters, flows 0.55 and 0.45 of a parent flow 1. The
  logit argument is 1/2 and each daughter receives half of the RBCs.
\<close>

lemma middle_region_split:
  "get_erythrocyte_fraction_fl exact (1 / 2) (56 / 10 ^ 7) (56 / 10 ^ 7) (56 / 10 ^ 7) 1
     (55 / 100) (45 / 100) = Inr (5 / 11, 5 / 9)"
  by (simp add: get_erythrocyte_fraction_fl_exact law_defs)

theorem rbc_flux_conserved_witness:
  "accurate float64 \<and> rnd float64 (1 / 10 ^ 36) \<le> 1 / 2 \<and>
   get_erythrocyte_fraction_fl float64 (1 / 2) (1 / 2 ^ 20) (1 / 2 ^ 20) (1 / 2 ^ 20) 1 (1 / 2) (1 / 2)
     = Inr (45035996273705 / 2 ^ 52, 4458563631096791 / 2 ^ 52) \<and>
   \<bar>45035996273705 / 2 ^ 52 * (1 / 2) + 4458563631096791 / 2 ^ 52 * (1 / 2) - 1 / 2 * 1\<bar>
     \<le> \<bar>1 / 2 * (1 :: real)\<bar> / 2 ^ 48 \<and>
   \<bar>45035996273705 / 2 ^ 52 * (1 / 2) + 4458563631096791 / 2 ^ 52 * (1 / 2) - 1 / 2 * (1 :: real)\<bar>
     \<le> 1 / 10 ^ 5 \<and>
   accurate exact \<and> rnd exact (1 / 10 ^ 36) \<le> 45 / 100 \<and>
   get_erythrocyte_fraction_fl exact (1 / 2) (56 / 10 ^ 7) (56 / 10 ^ 7) (56 / 10 ^ 7) 1
     (55 / 100) (45 / 100) = Inr (5 / 11, 5 / 9) \<and>
   (5 / 11) * (55 / 100) + (5 / 9) * (45 / 100) = (1 / 2) * (1 :: real)"
proof -
  have t: "rnd float64 (1 / 10 ^ 36) \<le> 1 / 2" by (simp add: float64_sel f64_values)
  have u: "rnd exact (1 / 10 ^ 36) \<le> 55 / 100" "rnd exact (1 / 10 ^ 36) \<le> 45 / 100"
    by (simp_all add: exact_def)
  from rbc_flux_conserved[OF float64_accurate t t even_law]
    rbc_flux_conserved[OF exact_accurate u middle_region_split]
    float64_accurate exact_accurate t u middle_region_split even_law
  show ?thesis by simp
qed

text \<open>
  Claim C1 as stated fails. In binary64 on the input \<open>large\<close> all RBCs go to daughter
  a: its haematocrit is the float nearest to 2/3, and its RBC flux differs from the flux
  \<open>2 ^ 45\<close> of the parent by 1/512, more than \<open>1E-5\<close>.
\<close>

theorem rbc_flux_counterexample:
  "rnd float64 (1 / 10 ^ 36) \<le> 3 * 2 ^ 44 \<and> rnd float64 (1 / 10 ^ 36) \<le> 2 ^ 44 \<and>
   get_erythrocyte_fraction_fl float64 (1 / 2) (1 / 2 ^ 20) (1 / 2 ^ 20) (1 / 2 ^ 20) (2 ^ 46)
     (3 * 2 ^ 44) (2 ^ 44) = Inr (6004799503160661 / 2 ^ 53, 0) \<and>
   \<bar>6004799503160661 / 2 ^ 53 * (3 * 2 ^ 44) + 0 * 2 ^ 44 - 1 / 2 * 2 ^ 46\<bar> = (1 / 512 :: real) \<and>
   \<not> \<bar>6004799503160661 / 2 ^ 53 * (3 * 2 ^ 44) + 0 * 2 ^ 44 - 1 / 2 * 2 ^ 46\<bar> \<le> (1 / 10 ^ 5 :: real)"
  using large_law by (simp add: float64_sel f64_values)

text \<open>
  Claim C6, as amended. If a daughter haematocrit computed from the shares reaches the
  threshold 0.99, the law moves the excess RBC share to the other daughter (b is tested
  first, a only when b is below the threshold). The saturated daughter is then returned
  at 0.99 up to rounding: within \<open>(1 + h) * 2 ^ -48\<close> of 0.99, where \<open>h\<close> is its
  haematocrit before the step; and the RBC flux of the two daughters is that of the parent
  up to \<open>2 ^ -48\<close> of it. This holds in every arithmetic with the rounding error of
  binary64. The other daughter is not clamped: of a returned value it is only known that
  it is below 1. When no daughter reaches the threshold the haematocrits are returned as
  computed from the shares.
\<close>

theorem saturation_redistribution:
  assumes acc: "accurate ar"
    and s: "rbc_shares_fl ar hemat_par diam_par diam_a diam_b flow_a flow_b = Inr (share_a, share_b)"
    and h: "hemat_of_shares_fl ar share_a share_b (rnd ar (hemat_par * flow_parent)) flow_a flow_b
              = Inr (hemat_a_pre, hemat_b_pre)"
    and g: "get_erythrocyte_fraction_fl ar hemat_par diam_par diam_a diam_b flow_parent flow_a flow_b
              = Inr (hemat_a, hemat_b)"
  shows "(rnd ar (99 / 100) \<le> hemat_b_pre \<longrightarrow>
            \<bar>hemat_b - 99 / 100\<bar> \<le> (1 + hemat_b_pre) / 2 ^ 48) \<and>
         (hemat_b_pre < rnd ar (99 / 100) \<and> rnd ar (99 / 100) \<le> hemat_a_pre \<longrightarrow>
            \<bar>hemat_a - 99 / 100\<bar> \<le> (1 + hemat_a_pre) / 2 ^ 48) \<and>
         (rnd ar (99 / 100) \<le> hemat_b_pre \<or> rnd ar (99 / 100) \<le> hemat_a_pre \<longrightarrow>
            \<bar>hemat_a * flow_a + hemat_b * flow_b - hemat_par * flow_parent\<bar>
              \<le> \<bar>hemat_par * flow_parent\<bar> / 2 ^ 48) \<and>
         (hemat_b_pre < rnd ar (99 / 100) \<and> hemat_a_pre < rnd ar (99 / 100) \<longrightarrow>
            hemat_a = hemat_a_pre \<and> hemat_b = hemat_b_pre) \<and>
         hemat_a < 1 \<and> hemat_b < 1"
proof -
  define q where "q = rnd ar (hemat_par * flow_parent)"
  define T where "T = rnd ar (99 / 100)"
  from g obtain sa sb ha0 hb0 where
    s': "rbc_shares_fl ar hemat_par diam_par diam_a diam_b flow_a flow_b = Inr (sa, sb)" and
    h': "hemat_of_shares_fl ar sa sb (rnd ar (hemat_par * flow_parent)) flow_a flow_b = Inr (ha0, hb0)" and
    c': "saturation_fl ar ha0 hb0 sa sb (rnd ar (hemat_par * flow_parent)) flow_a flow_b
           = Inr (hemat_a, hemat_b)" and
    lt: "hemat_a < 1" "hemat_b < 1"
    by (rule get_erythrocyte_fraction_fl_InrE)
  from s s' have "sa = share_a" "sb = share_b" by simp_all
  with h h' have "ha0 = hemat_a_pre" "hb0 = hemat_b_pre" by simp_all
  note c = c'[unfolded \<open>sa = share_a\<close> \<open>sb = share_b\<close> \<open>ha0 = hemat_a_pre\<close> \<open>hb0 = hemat_b_pre\<close>,
      folded q_def T_def]
  note pre = hemat_of_shares_fl_cases[OF acc h, folded q_def]
  have T: "98 / 100 \<le> T" "\<bar>T - 99 / 100\<bar> \<le> 1 / 2 ^ 53"
    using threshold_range[OF acc] by (simp_all add: T_def)
  have near: "\<bar>x - 99 / 100\<bar> \<le> (1 + y) / 2 ^ 48" if "\<bar>x - T\<bar> \<le> (1 + y) / 2 ^ 49" "T \<le> y" for x y
    using that T unfolding power_values by argo
  have b: "\<bar>hemat_b - T\<bar> \<le> (1 + hemat_b_pre) / 2 ^ 49 \<and>
           \<bar>hemat_a * flow_a + hemat_b * flow_b - (share_a + share_b) * q\<bar>
             \<le> 16 * (\<bar>share_a * q\<bar> + \<bar>share_b * q\<bar>) / 2 ^ 53" if "T \<le> hemat_b_pre"
  proof -
    from that T have "hemat_b_pre \<noteq> 0" by auto
    with pre have "\<bar>hemat_b_pre * flow_b - share_b * q\<bar> \<le> 3 * \<bar>share_b * q\<bar> / 2 ^ 53" by simp
    from saturation_fl_b[OF acc c[unfolded q_def T_def] that[unfolded T_def] this[unfolded q_def]]
    show ?thesis by (simp add: q_def T_def)
  qed
  have a: "\<bar>hemat_a - T\<bar> \<le> (1 + hemat_a_pre) / 2 ^ 49 \<and>
           \<bar>hemat_a * flow_a + hemat_b * flow_b - (share_a + share_b) * q\<bar>
             \<le> 16 * (\<bar>share_a * q\<bar> + \<bar>share_b * q\<bar>) / 2 ^ 53"
    if "hemat_b_pre < T" "T \<le> hemat_a_pre"
  proof -
    from that T have "hemat_a_pre \<noteq> 0" by auto
    with pre have "\<bar>hemat_a_pre * flow_a - share_a * q\<bar> \<le> 3 * \<bar>share_a * q\<bar> / 2 ^ 53" by simp
    from saturation_fl_a[OF acc c[unfolded q_def T_def] that[unfolded T_def] this[unfolded q_def]]
    show ?thesis by (simp add: q_def T_def)
  qed
  have 1: "T \<le> hemat_b_pre \<longrightarrow> \<bar>hemat_b - 99 / 100\<bar> \<le> (1 + hemat_b_pre) / 2 ^ 48"
    using b near by blast
  have 2: "hemat_b_pre < T \<and> T \<le> hemat_a_pre \<longrightarrow>
             \<bar>hemat_a - 99 / 100\<bar> \<le> (1 + hemat_a_pre) / 2 ^ 48"
    using a near by blast
  have 3: "T \<le> hemat_b_pre \<or> T \<le> hemat_a_pre \<longrightarrow>
             \<bar>hemat_a * flow_a + hemat_b * flow_b - hemat_par * flow_parent\<bar>
               \<le> \<bar>hemat_par * flow_parent\<bar> / 2 ^ 48"
  proof
    assume "T \<le> hemat_b_pre \<or> T \<le> hemat_a_pre"
    then have "\<bar>hemat_a * flow_a + hemat_b * flow_b - (share_a + share_b) * q\<bar>
             \<le> 16 * (\<bar>share_a * q\<bar> + \<bar>share_b * q\<bar>) / 2 ^ 53"
      using a b by (cases "T \<le> hemat_b_pre") auto
    from flux_rounding[OF acc s this[unfolded q_def]]
    show "\<bar>hemat_a * flow_a + hemat_b * flow_b - hemat_par * flow_parent\<bar>
               \<le> \<bar>hemat_par * flow_parent\<bar> / 2 ^ 48" .
  qed
  have 4: "hemat_b_pre < T \<and> hemat_a_pre < T \<longrightarrow> hemat_a = hemat_a_pre \<and> hemat_b = hemat_b_pre"
    using c by (auto simp: saturation_fl_none q_def T_def)
  from 1 2 3 4 lt show ?thesis unfolding T_def by blast
qed

text \<open>
  In binary64: on \<open>clamp\<close> daughter b comes out of the shares at the float nearest to
  7/6 and is returned one unit in the last place below the float 0.99; on \<open>clamp_a\<close>
  the same happens to daughter a; on \<open>large\<close> no daughter reaches the threshold.
\<close>

theorem saturation_redistribution_witness:
  "accurate float64 \<and> rnd float64 (99 / 100) = 4458563631096791 / 2 ^ 52 \<and>
   get_erythrocyte_fraction_fl float64 (7 / 8) (1 / 2 ^ 21) (1 / 2 ^ 21) (1 / 2 ^ 21) 1 (1 / 4) (3 / 4)
     = Inr (596726950626591 / 2 ^ 50, 8917127262193581 / 2 ^ 53) \<and>
   \<bar>8917127262193581 / 2 ^ 53 - 99 / 100\<bar> \<le> (1 + 5254199565265579 / 2 ^ 52) / (2 ^ 48 :: real) \<and>
   \<bar>596726950626591 / 2 ^ 50 * (1 / 4) + 8917127262193581 / 2 ^ 53 * (3 / 4) - 7 / 8 * 1\<bar>
     \<le> \<bar>7 / 8 * (1 :: real)\<bar> / 2 ^ 48 \<and>
   get_erythrocyte_fraction_fl float64 (7 / 8) (1 / 2 ^ 21) (1 / 2 ^ 21) (1 / 2 ^ 21) 1 (3 / 4) (1 / 4)
     = Inr (8917127262193581 / 2 ^ 53, 596726950626591 / 2 ^ 50) \<and>
   get_erythrocyte_fraction_fl float64 (1 / 2) (1 / 2 ^ 20) (1 / 2 ^ 20) (1 / 2 ^ 20) (2 ^ 46)
     (3 * 2 ^ 44) (2 ^ 44) = Inr (6004799503160661 / 2 ^ 53, 0) \<and>
   (6004799503160661 / 2 ^ 53 :: real) < 1"
proof -
  have hb: "hemat_of_shares_fl float64 0 1 (rnd float64 (7 / 8 * 1)) (1 / 4) (3 / 4)
              = Inr (0, 5254199565265579 / 2 ^ 52)"
    using clamp_hemat by (simp add: float64_sel f64_values)
  have ha: "hemat_of_shares_fl float64 1 0 (rnd float64 (7 / 8 * 1)) (3 / 4) (1 / 4)
              = Inr (5254199565265579 / 2 ^ 52, 0)"
    using clamp_a_hemat by (simp add: float64_sel f64_values)
  have hl: "hemat_of_shares_fl float64 1 0 (rnd float64 (1 / 2 * 70368744177664)) 52776558133248
              17592186044416 = Inr (6004799503160661 / 2 ^ 53, 0)"
    using large_hemat by (simp add: float64_sel f64_values)
  from saturation_redistribution[OF float64_accurate clamp_shares hb clamp_law]
    saturation_redistribution[OF float64_accurate clamp_a_shares ha clamp_a_law]
    saturation_redistribution[OF float64_accurate large_shares hl large_law]
    float64_accurate clamp_law clamp_a_law large_law
  show ?thesis by (simp add: float64_sel f64_values)
qed

text \<open>
  Claim C6 as stated fails, already in exact arithmetic. Parent haematocrit 0.995, parent
  flow 1 split into 0.5005 and 0.4995: both daughters come out of the shares above 0.99, b
  is clamped to 0.99 and a is returned at 100099/100100, above the threshold.
\<close>

theorem saturation_counterexample:
  "hemat_of_shares (1 / 2) (1 / 2) (199 / 200 * 1) (1001 / 2000) (999 / 2000)
     = Inr (995 / 1001, 995 / 999) \<and>
   (99 / 100 :: real) \<le> 995 / 999 \<and>
   get_erythrocyte_fraction (199 / 200) (56 / 10 ^ 7) (56 / 10 ^ 7) (56 / 10 ^ 7) 1
      (1001 / 2000) (999 / 2000) = Inr (100099 / 100100, 99 / 100) \<and>
   (99 / 100 :: real) < 100099 / 100100"
  by (simp add: law_defs)

text \<open>
  Claim C7, as amended. When, after the saturation step, a daughter haematocrit is at
  least 1, the law does not return: it calls \<open>sys.exit()\<close>. Whenever it returns two
  numbers, both are strictly below 1. This holds in every arithmetic. The law gives no
  lower bound.
\<close>

theorem fatal_guard:
  "(rbc_shares_fl ar hemat_par diam_par diam_a diam_b flow_a flow_b = Inr (share_a, share_b) \<and>
    hemat_of_shares_fl ar share_a share_b (rnd ar (hemat_par * flow_parent)) flow_a flow_b
      = Inr (hemat_a_pre, hemat_b_pre) \<and>
    saturation_fl ar hemat_a_pre hemat_b_pre share_a share_b (rnd ar (hemat_par * flow_parent))
      flow_a flow_b = Inr (hemat_a_post, hemat_b_post) \<and>
    (hemat_a_post \<ge> 1 \<or> hemat_b_post \<ge> 1) \<longrightarrow>
      get_erythrocyte_fraction_fl ar hemat_par diam_par diam_a diam_b flow_parent flow_a flow_b
        = Inl SystemExit) \<and>
   (get_erythrocyte_fraction_fl ar hemat_par diam_par diam_a diam_b flow_parent flow_a flow_b
      = Inr (hemat_a, hemat_b) \<longrightarrow> hemat_a < 1 \<and> hemat_b < 1)"
proof (intro conjI impI)
  assume "rbc_shares_fl ar hemat_par diam_par diam_a diam_b flow_a flow_b = Inr (share_a, share_b) \<and>
    hemat_of_shares_fl ar share_a share_b (rnd ar (hemat_par * flow_parent)) flow_a flow_b
      = Inr (hemat_a_pre, hemat_b_pre) \<and>
    saturation_fl ar hemat_a_pre hemat_b_pre share_a share_b (rnd ar (hemat_par * flow_parent))
      flow_a flow_b = Inr (hemat_a_post, hemat_b_post) \<and>
    (hemat_a_post \<ge> 1 \<or> hemat_b_post \<ge> 1)"
  then show "get_erythrocyte_fraction_fl ar hemat_par diam_par diam_a diam_b flow_parent flow_a flow_b
        = Inl SystemExit"
    using get_erythrocyte_fraction_fl_stages[of ar hemat_par diam_par diam_a diam_b flow_a flow_b
        share_a share_b flow_parent hemat_a_pre hemat_b_pre hemat_a_post hemat_b_post]
    by auto
next
  assume g: "get_erythrocyte_fraction_fl ar hemat_par diam_par diam_a diam_b flow_parent flow_a flow_b
      = Inr (hemat_a, hemat_b)"
  from g show "hemat_a < 1" by (rule get_erythrocyte_fraction_fl_InrE)
  from g show "hemat_b < 1" by (rule get_erythrocyte_fraction_fl_InrE)
qed

text \<open>
  In binary64: on \<open>over\<close> daughter b comes out of the shares at 2, the saturation step
  gives daughter a the float 1.01, and the law exits; on \<open>even\<close> the law returns the
  floats 0.010000000000000009 and 0.99.
\<close>

theorem fatal_guard_witness:
  "saturation_fl float64 0 2 0 1 2 1 1 = Inr (4548635623644201 / 2 ^ 52, 4458563631096791 / 2 ^ 52) \<and>
   (1 :: real) \<le> 4548635623644201 / 2 ^ 52 \<and>
   get_erythrocyte_fraction_fl float64 (1 / 2) (1 / 2 ^ 20) (1 / 2 ^ 20) (1 / 2 ^ 20) 4 1 1
     = Inl SystemExit \<and>
   get_erythrocyte_fraction_fl float64 (1 / 2) (1 / 2 ^ 20) (1 / 2 ^ 20) (1 / 2 ^ 20) 1 (1 / 2) (1 / 2)
     = Inr (45035996273705 / 2 ^ 52, 4458563631096791 / 2 ^ 52) \<and>
   (45035996273705 / 2 ^ 52 :: real) < 1 \<and> (4458563631096791 / 2 ^ 52 :: real) < 1"
  using fatal_guard[where ar = float64 and hemat_par = "1 / 2" and diam_par = "1 / 2 ^ 20"
      and diam_a = "1 / 2 ^ 20" and diam_b = "1 / 2 ^ 20" and flow_a = 1 and flow_b = 1
      and share_a = 0 and share_b = 1 and flow_parent = 4 and hemat_a_pre = 0 and hemat_b_pre = 2
      and hemat_a_post = "4548635623644201 / 2 ^ 52" and hemat_b_post = "4458563631096791 / 2 ^ 52"]
    fatal_guard[where ar = float64 and hemat_par = "1 / 2" and diam_par = "1 / 2 ^ 20"
      and diam_a = "1 / 2 ^ 20" and diam_b = "1 / 2 ^ 20" and flow_a = "1 / 2" and flow_b = "1 / 2"
      and flow_parent = 1 and hemat_a = "45035996273705 / 2 ^ 52"
      and hemat_b = "4458563631096791 / 2 ^ 52"]
    over_shares over_hemat over_saturation even_law
  by (simp add: float64_sel f64_values)

section \<open>Properties of a pass\<close>

lemmas pass_defs =
  update_hd_def ordered_nodes_def stable_argsort_def initial_state_def process_node_def
  edge_connected_position_def isin_edge_def bind_daughters_def bind_parents_def
  boundary_node_def interior_node_def boundary_value_def rd_def need_def item_def store_def
  assign1_def assign2_def assign3_def
  hematocrit_1_1_def hematocrit_1_2_def hematocrit_1_3_def hematocrit_2_1_def
  hematocrit_2_2_aux_def hematocrit_3_1_def
  qRCS_def balance_test_def req_def radd_def rmul_def tollerance_def

lemma scan_ordered_parents:
  assumes "scan_ordered es pos node ons acc = (parent_edge, edge_daughter)"
    and "e \<in> set parent_edge"
  shows "e \<in> set acc \<or>
         (e \<in> set pos \<and> (\<exists>on. on \<in> set (takeWhile (\<lambda>on. on \<noteq> node) ons) \<and> isin_edge on (es ! e)))"
  using assms
proof (induction ons arbitrary: acc)
  case Nil
  then show ?case by simp
next
  case (Cons on ons)
  show ?case
  proof (cases "on = node")
    case True
    with Cons.prems show ?thesis by simp
  next
    case False
    show ?thesis
    proof (cases "list_ex (\<lambda>i. isin_edge on (es ! i)) pos")
      case True
      with False Cons.prems have
        "scan_ordered es pos node ons (acc @ filter (\<lambda>i. isin_edge on (es ! i)) pos)
           = (parent_edge, edge_daughter)" by simp
      from Cons.IH[OF this Cons.prems(2)] False show ?thesis by auto
    next
      case F2: False
      with False Cons.prems have
        "scan_ordered es pos node ons acc = (parent_edge, edge_daughter)" by simp
      from Cons.IH[OF this Cons.prems(2)] False show ?thesis by auto
    qed
  qed
qed

lemma scan_ordered_daughters:
  assumes "scan_ordered es pos node ons acc = (parent_edge, edge_daughter)"
  shows "set edge_daughter \<subseteq> set pos \<and> set edge_daughter \<inter> set parent_edge = {}"
  using assms
  by (induction ons arbitrary: acc) (auto split: if_splits)

lemma node_loop_append:
  "node_loop fn flow order (pre @ post) st =
     ebind (node_loop fn flow order pre st) (node_loop fn flow order post)"
proof (induction pre arbitrary: st)
  case Nil
  then show ?case by (simp add: ebind_def)
next
  case (Cons a pre)
  then show ?case
    by (cases "process_node fn flow order a st") (simp_all add: ebind_def)
qed

lemma node_loop_split:
  "node_loop fn flow order (pre @ node # post) st =
     ebind (node_loop fn flow order pre st) (\<lambda>st'.
     ebind (process_node fn flow order node st') (node_loop fn flow order post))"
proof -
  have "node_loop fn flow order (node # post) =
          (\<lambda>st'. ebind (process_node fn flow order node st') (node_loop fn flow order post))"
    by (rule ext) simp
  then show ?thesis by (simp only: node_loop_append)
qed

lemma stable_argsort_set: "set (stable_argsort ks) = {0..<length ks}"
  by (simp add: stable_argsort_def)

lemma stable_argsort_distinct: "distinct (stable_argsort ks)"
  by (simp add: stable_argsort_def)

lemma stable_argsort_sorted: "sorted (map (\<lambda>i. ks ! i) (stable_argsort ks))"
  by (simp add: stable_argsort_def)

lemma stable_argsort_stable:
  "filter (\<lambda>i. ks ! i = k) (stable_argsort ks) = filter (\<lambda>i. ks ! i = k) [0..<length ks]"
  by (simp add: stable_argsort_def sort_key_stable)

text \<open>On keys without ties there is one list of positions that sorts them.\<close>

lemma argsort_unique:
  assumes "distinct ks" and "set xs = {0..<length ks}" and "distinct xs"
    and "sorted (map (\<lambda>i. ks ! i) xs)"
  shows "xs = stable_argsort ks"
proof -
  have inj: "inj_on (\<lambda>i. ks ! i) {0..<length ks}"
    using assms(1) by (intro inj_on_nth) simp_all
  have "map (\<lambda>i. ks ! i) xs = map (\<lambda>i. ks ! i) (stable_argsort ks)"
  proof (rule sorted_distinct_set_unique)
    show "sorted (map (\<lambda>i. ks ! i) xs)" by (rule assms(4))
    show "distinct (map (\<lambda>i. ks ! i) xs)"
      using inj assms(2,3) by (simp add: distinct_map)
    show "sorted (map (\<lambda>i. ks ! i) (stable_argsort ks))" by (rule stable_argsort_sorted)
    show "distinct (map (\<lambda>i. ks ! i) (stable_argsort ks))"
      using inj by (simp add: distinct_map stable_argsort_set stable_argsort_distinct)
    show "set (map (\<lambda>i. ks ! i) xs) = set (map (\<lambda>i. ks ! i) (stable_argsort ks))"
      by (simp add: assms(2) stable_argsort_set)
  qed
  moreover have "inj_on (\<lambda>i. ks ! i) (set xs \<union> set (stable_argsort ks))"
    using inj by (simp add: assms(2) stable_argsort_set)
  ultimately show ?thesis by (simp add: inj_on_map_eq_map)
qed

lemma ordered_nodes_descending:
  assumes "set (argsort (take n p)) = {0..<n}"
    and "sorted (map (\<lambda>i. take n p ! i) (argsort (take n p)))"
  shows "sorted (rev (map (\<lambda>i. p ! i) (ordered_nodes argsort p n)))"
proof -
  have eq: "map (\<lambda>i. p ! i) (argsort (take n p)) = map (\<lambda>i. take n p ! i) (argsort (take n p))"
    using assms(1) by (intro map_cong) auto
  show ?thesis unfolding ordered_nodes_def rev_map rev_rev_ident eq by (rule assms(2))
qed

text \<open>
  Claim C3, as amended. Within one pass the nodes are processed in the reverse of the
  order in which \<open>argsort\<close> sorts their pressures. As \<open>argsort\<close> returns every position
  once and in an order of ascending pressure, each node is processed once and in an order
  of descending pressure. Nodes of equal pressure are not in node id order: if the sort is
  stable they stand in descending node id order, and otherwise their order is not known.
  Every parent edge of a node is an edge at that node whose other endpoint stands before
  the node in the order, and the nodes that stand before a node are processed before it
  in the same pass.
\<close>

theorem node_order:
  assumes "set (argsort (take n p)) = {0..<n}" and "distinct (argsort (take n p))"
    and "sorted (map (\<lambda>i. take n p ! i) (argsort (take n p)))"
  shows "set (ordered_nodes argsort p n) = {0..<n} \<and> distinct (ordered_nodes argsort p n) \<and>
         sorted (rev (map (\<lambda>i. p ! i) (ordered_nodes argsort p n))) \<and>
         ((\<forall>k. filter (\<lambda>i. p ! i = k) (argsort (take n p)) = filter (\<lambda>i. p ! i = k) [0..<n]) \<longrightarrow>
          (\<forall>k. filter (\<lambda>i. p ! i = k) (ordered_nodes argsort p n)
                  = rev (filter (\<lambda>i. p ! i = k) [0..<n]))) \<and>
         (scan_ordered es (edge_connected_position es node) node order [] = (parent_edge, edge_daughter) \<and>
          e \<in> set parent_edge \<longrightarrow>
            e \<in> set (edge_connected_position es node) \<and>
            (\<exists>on. on \<in> set (takeWhile (\<lambda>on. on \<noteq> node) order) \<and> isin_edge on (es ! e))) \<and>
         node_loop fn flow order (pre @ node # post) st =
           ebind (node_loop fn flow order pre st) (\<lambda>st'.
           ebind (process_node fn flow order node st') (node_loop fn flow order post))"
  using assms ordered_nodes_descending[of argsort n p]
    scan_ordered_parents[of es "edge_connected_position es node" node order "[]"
      parent_edge edge_daughter e]
  by (simp add: ordered_nodes_def rev_filter[symmetric] node_loop_split)

text \<open>
  Claim C3 as stated fails. A stable sort puts two nodes of equal pressure in the order
  \<open>[0, 1]\<close> and the reversal makes the order \<open>[1, 0]\<close>: the tie is broken against the
  original node id order.
\<close>

theorem node_order_counterexample:
  "stable_argsort [1, 1] = [0, 1] \<and> ordered_nodes stable_argsort [1, 1] 2 = [1, 0] \<and>
   ordered_nodes stable_argsort [1, 1] 2 \<noteq> [0, 1]"
  by (simp add: ordered_nodes_def stable_argsort_def upt_rec)







lemma bind_daughters_frame:
  assumes "bind_daughters edge_daughter st = (n, st')"
  shows "hd_now st' = hd_now st \<and> rbc_balance st' = rbc_balance st \<and> printed st' = printed st"
  using assms by (auto simp: bind_daughters_def split: list.splits)

lemma bind_parents_frame:
  assumes "bind_parents parent_edge st = (n, st')"
  shows "hd_now st' = hd_now st \<and> rbc_balance st' = rbc_balance st \<and> printed st' = printed st"
  using assms by (auto simp: bind_parents_def split: list.splits)

lemma boundary_unhandled:
  assumes "(n_parent, n_daughter) \<notin> {(0, 1), (0, 2), (1, 1), (2, 1), (0, 3), (1, 2)}"
  shows "boundary_node fn flow node n_parent n_daughter st = Inr st"
  using assms by (auto simp: boundary_node_def Let_def)

lemma interior_unhandled:
  assumes "(n_parent, n_daughter) \<notin> {(1, 1), (1, 2), (1, 3), (2, 1), (2, 2), (3, 1)}"
  shows "interior_node fn flow node n_parent n_daughter st =
           Inr (if n_parent = 0 then st\<lparr>printed := printed st @ [node]\<rparr> else st)"
  using assms by (auto simp: interior_node_def Let_def)

text \<open>
  Claim C9, as amended. For a node whose pair of parent and daughter counts has no
  handler that writes (a boundary node with a pair other than (0,1), (0,2), (1,1), (2,1),
  (0,3), (1,2); an interior node with a pair other than (1,1), (1,2), (1,3), (2,1), (2,2),
  (3,1)), the haematocrit array and the imbalance count stay as they are and the pass goes
  on with the next node. A line is printed only for an interior node whose parent count
  is 0.
\<close>

theorem unhandled_shape:
  assumes scan: "scan_ordered (edge_list fn) (edge_connected_position (edge_list fn) node) node
                   order [] = (parent_edge, edge_daughter)"
    and d: "bind_daughters edge_daughter st = (n_daughter, st_d)"
    and p: "bind_parents parent_edge st_d = (n_parent, st_p)"
    and un: "if node \<in> set (boundary_vs fn)
             then (n_parent, n_daughter) \<notin> {(0, 1), (0, 2), (1, 1), (2, 1), (0, 3), (1, 2)}
             else (n_parent, n_daughter) \<notin> {(1, 1), (1, 2), (1, 3), (2, 1), (2, 2), (3, 1)}"
  shows "\<exists>st'. process_node fn flow order node st = Inr st' \<and>
           hd_now st' = hd_now st \<and> rbc_balance st' = rbc_balance st \<and>
           printed st' = printed st @ (if node \<notin> set (boundary_vs fn) \<and> n_parent = 0 then [node] else []) \<and>
           node_loop fn flow order (node # rest) st = node_loop fn flow order rest st'"
proof -
  have fr: "hd_now st_p = hd_now st \<and> rbc_balance st_p = rbc_balance st \<and> printed st_p = printed st"
    using bind_daughters_frame[OF d] bind_parents_frame[OF p] by simp
  show ?thesis
  proof (cases "node \<in> set (boundary_vs fn)")
    case True
    with un have "boundary_node fn flow node n_parent n_daughter st_p = Inr st_p"
      by (intro boundary_unhandled) simp
    with True scan d p have "process_node fn flow order node st = Inr st_p"
      by (simp add: process_node_def)
    with True fr show ?thesis by (simp add: ebind_def)
  next
    case False
    with un have "interior_node fn flow node n_parent n_daughter st_p =
           Inr (if n_parent = 0 then st_p\<lparr>printed := printed st_p @ [node]\<rparr> else st_p)"
      by (intro interior_unhandled) simp
    with False scan d p have "process_node fn flow order node st =
           Inr (if n_parent = 0 then st_p\<lparr>printed := printed st_p @ [node]\<rparr> else st_p)"
      by (simp add: process_node_def)
    with False fr show ?thesis by (simp add: ebind_def)
  qed
qed

lemmas topo_defs = edge_connected_position_def isin_edge_def bind_daughters_def bind_parents_def
  ordered_nodes_def stable_argsort_def initial_state_def

lemma dead_end_scan:
  "scan_ordered (edge_list dead_end_network) (edge_connected_position (edge_list dead_end_network) 1) 1
     (ordered_nodes stable_argsort [3, 2, 1] 3) [] = ([0], [])"
  by (simp add: dead_end_network_def topo_defs upt_rec)

lemma star_scan:
  "scan_ordered (edge_list star_network) (edge_connected_position (edge_list star_network) 3) 3
     (ordered_nodes stable_argsort [9, 8, 7, 5, 2, 1] 6) [] = ([0, 1, 2], [3, 4])"
  by (simp add: star_network_def topo_defs upt_rec)

text \<open>
  Claim C9 as stated fails. Node 3 of \<open>star_network\<close> is an interior node with three
  parent edges and two daughter edges, a pair no case of the dispatch matches: the node is
  passed over and nothing is printed.
\<close>

theorem unhandled_shape_counterexample:
  "3 \<notin> set (boundary_vs star_network) \<and>
   scan_ordered (edge_list star_network) (edge_connected_position (edge_list star_network) 3) 3
     (ordered_nodes stable_argsort [9, 8, 7, 5, 2, 1] 6) [] = ([0, 1, 2], [3, 4]) \<and>
   process_node star_network (map abs (flow_rate star_network)) (ordered_nodes stable_argsort [9, 8, 7, 5, 2, 1] 6) 3
     (initial_state star_network)
   = Inr ((initial_state star_network)\<lparr>daughter_a := Some 3, daughter_b := Some 4,
            parent_a := Some 0, parent_b := Some 1, parent_c := Some 2\<rparr>) \<and>
   printed ((initial_state star_network)\<lparr>daughter_a := Some 3, daughter_b := Some 4,
            parent_a := Some 0, parent_b := Some 1, parent_c := Some 2\<rparr>) = []"
  by (simp add: star_network_def process_node_def interior_node_def topo_defs upt_rec)

lemma dead_end_daughters:
  "bind_daughters [] (initial_state dead_end_network) = (0, initial_state dead_end_network)"
  by (simp add: bind_daughters_def)

lemma dead_end_parents:
  "bind_parents [0] (initial_state dead_end_network)
     = (1, (initial_state dead_end_network)\<lparr>parent := Some 0\<rparr>)"
  by (simp add: bind_parents_def)

theorem unhandled_shape_witness:
  "\<exists>st'. process_node dead_end_network (map abs (flow_rate dead_end_network))
            (ordered_nodes stable_argsort [3, 2, 1] 3) 1 (initial_state dead_end_network) = Inr st' \<and>
     hd_now st' = [45 / 100, 45 / 100] \<and> rbc_balance st' = 0 \<and> printed st' = []"
  using unhandled_shape[OF dead_end_scan dead_end_daughters dead_end_parents,
      of "map abs (flow_rate dead_end_network)" "[]"]
  by (simp add: dead_end_network_def initial_state_def) blast

theorem node_order_witness:
  "ordered_nodes stable_argsort [2, 1, 1] 3 = [0, 2, 1] \<and>
   sorted (rev (map (\<lambda>i. [2, 1, 1 :: real] ! i) [0, 2, 1])) \<and>
   filter (\<lambda>i. [2, 1, 1 :: real] ! i = 1) [0, 2, 1] = rev (filter (\<lambda>i. [2, 1, 1 :: real] ! i = 1) [0..<3]) \<and>
   0 \<in> set (edge_connected_position (edge_list dead_end_network) 1) \<and>
   (\<exists>on. on \<in> set (takeWhile (\<lambda>on. on \<noteq> 1) (ordered_nodes stable_argsort [3, 2, 1] 3)) \<and>
         isin_edge on (edge_list dead_end_network ! 0))"
proof -
  have o: "ordered_nodes stable_argsort [2, 1, 1] 3 = [0, 2, 1]"
    by (simp add: ordered_nodes_def stable_argsort_def upt_rec)
  have t: "take 3 [2, 1, 1 :: real] = [2, 1, 1]" by simp
  have a: "set (stable_argsort (take 3 [2, 1, 1])) = {0..<3}"
    using stable_argsort_set[of "[2, 1, 1]"] by (simp add: t numeral_3_eq_3)
  have b: "distinct (stable_argsort (take 3 [2, 1, 1]))" by (rule stable_argsort_distinct)
  have c: "sorted (map (\<lambda>i. take 3 [2, 1, 1 :: real] ! i) (stable_argsort (take 3 [2, 1, 1])))"
    by (rule stable_argsort_sorted)
  have d: "\<forall>k. filter (\<lambda>i. [2, 1, 1 :: real] ! i = k) (stable_argsort (take 3 [2, 1, 1]))
                 = filter (\<lambda>i. [2, 1, 1 :: real] ! i = k) [0..<3]"
    using stable_argsort_stable[of "[2, 1, 1]"] by (simp add: t numeral_3_eq_3)
  note n = node_order[where argsort = stable_argsort and n = 3 and p = "[2, 1, 1]"
      and es = "edge_list dead_end_network" and node = 1
      and order = "ordered_nodes stable_argsort [3, 2, 1] 3" and parent_edge = "[0]"
      and edge_daughter = "[]" and e = 0, OF a b c]
  have 1: "sorted (rev (map (\<lambda>i. [2, 1, 1 :: real] ! i) [0, 2, 1]))"
    using n[THEN conjunct2, THEN conjunct2, THEN conjunct1] unfolding o .
  have 2: "filter (\<lambda>i. [2, 1, 1 :: real] ! i = 1) [0, 2, 1]
             = rev (filter (\<lambda>i. [2, 1, 1 :: real] ! i = 1) [0..<3])"
    using n[THEN conjunct2, THEN conjunct2, THEN conjunct2, THEN conjunct1] d unfolding o by blast
  have 3: "0 \<in> set (edge_connected_position (edge_list dead_end_network) 1) \<and>
           (\<exists>on. on \<in> set (takeWhile (\<lambda>on. on \<noteq> 1) (ordered_nodes stable_argsort [3, 2, 1] 3)) \<and>
                 isin_edge on (edge_list dead_end_network ! 0))"
    using n[THEN conjunct2, THEN conjunct2, THEN conjunct2, THEN conjunct2, THEN conjunct1]
      dead_end_scan by simp
  from o 1 2 3 show ?thesis by blast
qed

lemma two_node_fails: "update_hd stable_argsort two_node_network = Inl ValueError"
  by (simp add: two_node_network_def pass_defs law_defs upt_rec)

lemma diamond_prefix:
  "node_loop diamond_network (map abs (flow_rate diamond_network)) (ordered_nodes stable_argsort [10, 8, 7, 5, 1] 5)
     [0, 1, 2] (initial_state diamond_network)
   = Inr \<lparr>hd_now = [0, 3 / 5, 0, 3 / 5, 9 / 20], rbc_balance = 0, single_daughter = Some 3,
          daughter_a = Some 0, daughter_b = Some 1, daughter_c = None, parent = Some 1,
          parent_a = None, parent_b = None, parent_c = None, printed = []\<rparr>"
  by (simp add: diamond_network_def pass_defs law_defs upt_rec)

lemma diamond_node3:
  "process_node diamond_network (map abs (flow_rate diamond_network)) (ordered_nodes stable_argsort [10, 8, 7, 5, 1] 5)
     3 \<lparr>hd_now = [0, 3 / 5, 0, 3 / 5, 9 / 20], rbc_balance = 0, single_daughter = Some 3,
          daughter_a = Some 0, daughter_b = Some 1, daughter_c = None, parent = Some 1,
          parent_a = None, parent_b = None, parent_c = None, printed = []\<rparr>
   = Inr \<lparr>hd_now = [0, 9 / 10, 0, 3 / 5, 9 / 20], rbc_balance = 1, single_daughter = Some 4,
          daughter_a = Some 0, daughter_b = Some 1, daughter_c = None, parent = Some 1,
          parent_a = Some 2, parent_b = Some 3, parent_c = None, printed = []\<rparr>"
  by (simp add: diamond_network_def pass_defs law_defs upt_rec)

text \<open>
  Claim C2 fails on two handlers of the boundary dispatch. On \<open>two_node_network\<close> the
  inlet has no parent and one daughter: the handler stores the pair returned by
  \<open>hematocrit_1_1\<close> into the haematocrit array, which ends the pass, and the count is
  not assigned. On \<open>diamond_network\<close> node 3 has two parents and one daughter and
  loses flow to the outside: after the nodes 0, 1 and 2 the handler of node 3 writes the
  edges 0 and 1, the daughters of node 0, of which edge 1 changes from 0.6 to 0.9, while
  the edges at node 3 are 2, 3 and 4 and its daughter, edge 4, keeps its old value.
\<close>

theorem handler_defects:
  "update_hd stable_argsort two_node_network = Inl ValueError \<and>
   node_loop diamond_network (map abs (flow_rate diamond_network)) (ordered_nodes stable_argsort [10, 8, 7, 5, 1] 5)
     [0, 1, 2] (initial_state diamond_network)
   = Inr \<lparr>hd_now = [0, 3 / 5, 0, 3 / 5, 9 / 20], rbc_balance = 0, single_daughter = Some 3,
          daughter_a = Some 0, daughter_b = Some 1, daughter_c = None, parent = Some 1,
          parent_a = None, parent_b = None, parent_c = None, printed = []\<rparr> \<and>
   process_node diamond_network (map abs (flow_rate diamond_network)) (ordered_nodes stable_argsort [10, 8, 7, 5, 1] 5)
     3 \<lparr>hd_now = [0, 3 / 5, 0, 3 / 5, 9 / 20], rbc_balance = 0, single_daughter = Some 3,
          daughter_a = Some 0, daughter_b = Some 1, daughter_c = None, parent = Some 1,
          parent_a = None, parent_b = None, parent_c = None, printed = []\<rparr>
   = Inr \<lparr>hd_now = [0, 9 / 10, 0, 3 / 5, 9 / 20], rbc_balance = 1, single_daughter = Some 4,
          daughter_a = Some 0, daughter_b = Some 1, daughter_c = None, parent = Some 1,
          parent_a = Some 2, parent_b = Some 3, parent_c = None, printed = []\<rparr> \<and>
   edge_connected_position (edge_list diamond_network) 3 = [2, 3, 4]"
  using two_node_fails diamond_prefix diamond_node3
  by (simp add: diamond_network_def edge_connected_position_def upt_rec)

text \<open>
  Claim C7 as stated fails. Node 1 of \<open>signed_flow_network\<close> is a boundary node with one
  parent and two daughters. Its branch is chosen by comparing the signed flow rate of the
  parent, here -3, with the sum 2 of the daughter flows, so that the node is taken to
  receive a flow \<open>2 - 3 = -1\<close> from outside at the boundary haematocrit 0.6. The parent
  vessel carries the haematocrit 0 that the inlet gave it, and the law is called with
  the parent haematocrit \<open>(3 * 0 + (-1) * 0.6) / (3 - 1) = -0.3\<close>. It returns
  \<open>(0, -0.6)\<close>, the checker finds the node balanced, and the pass ends with the
  haematocrit -0.6 in vessel 3. In binary64 the law returns the same way: on \<open>minus\<close>,
  with the parent haematocrit -0.375, it returns \<open>(0, -0.75)\<close>. In binary64 it also
  returns a negative value where no input is negative: on \<open>cancel\<close> daughter b comes
  out of the shares at about \<open>4.1E16\<close>, the surplus share is rounded to the float above
  1, and the share \<open>1 - surplus\<close> left to daughter b is \<open>- 2 ^ -52\<close>.
\<close>

theorem fatal_guard_counterexample:
  "get_erythrocyte_fraction (- 3 / 10) (1 / 10 ^ 6) (1 / 10 ^ 6) (1 / 10 ^ 6) 2 1 1 = Inr (0, - 3 / 5) \<and>
   update_hd stable_argsort signed_flow_network
     = Inr (signed_flow_network\<lparr>hd_es := [0, 9 / 10, 0, - 3 / 5]\<rparr>, []) \<and>
   get_erythrocyte_fraction_fl float64 (- (3 / 8)) (1 / 2 ^ 20) (1 / 2 ^ 20) (1 / 2 ^ 20) 2 1 1
     = Inr (0, - (3 / 4)) \<and>
   rnd float64 (5 / 8 + 11 / 2 ^ 61) = 5 / 8 \<and>
   get_erythrocyte_fraction_fl float64 (5 / 16) (1 / 2 ^ 23) (1 / 2 ^ 23) (1 / 2 ^ 23) (5 / 8)
     (5 / 8) (11 / 2 ^ 61) = Inr (2814749767106561 / 2 ^ 53, - (5117726849284655 / 2 ^ 49)) \<and>
   \<not> (0 :: real) \<le> - 3 / 5 \<and> \<not> (0 :: real) \<le> - (3 / 4) \<and>
   \<not> (0 :: real) \<le> - (5117726849284655 / 2 ^ 49)"
proof -
  have "update_hd stable_argsort signed_flow_network
          = Inr (signed_flow_network\<lparr>hd_es := [0, 9 / 10, 0, - 3 / 5]\<rparr>, [])"
    by (simp add: signed_flow_network_def pass_defs law_defs upt_rec)
  moreover have "get_erythrocyte_fraction (- 3 / 10) (1 / 10 ^ 6) (1 / 10 ^ 6) (1 / 10 ^ 6) 2 1 1
                   = Inr (0, - 3 / 5)"
    by (simp add: law_defs)
  ultimately show ?thesis using minus_law cancel_law by (simp add: float64_sel f64_values)
qed

section \<open>Properties of the outer loop\<close>

lemma loop_pass_iteration: "iteration (loop_pass env s) = iteration s + 1"
  by (simp add: loop_pass_def Let_def)

lemma loop_pass_check:
  "convergence_check (loop_pass env s) \<longleftrightarrow>
     (iteration s + 1 > 2 \<and> residual_berg env (iteration s + 1) \<le> berg_criteria env \<and>
      iteration s + 1 > 2000) \<or> iteration s + 1 = 2000"
  by (simp add: loop_pass_def Let_def)

lemma while_loop_capped:
  assumes "nat (2000 - iteration s) = n" and "iteration s < 2000" and "\<not> convergence_check s"
  shows "while_loop env s = Some (Inl SystemExit) \<and>
           (\<exists>i. iteration s \<le> i \<and> i < 2000 \<and> routine_exits env i) \<or>
         while_loop env s = Some (Inr \<lparr>iteration = 2000, convergence_check = True\<rparr>)"
  using assms
proof (induction n arbitrary: s)
  case 0
  then show ?case by simp
next
  case (Suc n)
  show ?case
  proof (cases "routine_exits env (iteration s)")
    case True
    with Suc.prems have "while_loop env s = Some (Inl SystemExit)"
      by (subst while_loop.simps) simp
    with True Suc.prems show ?thesis by auto
  next
    case False
    with Suc.prems have step: "while_loop env s = while_loop env (loop_pass env s)"
      by (subst while_loop.simps) simp
    show ?thesis
    proof (cases "iteration s + 1 = 2000")
      case True
      then have "loop_pass env s = \<lparr>iteration = 2000, convergence_check = True\<rparr>"
        by (simp add: loop_pass_def Let_def)
      then have "while_loop env (loop_pass env s)
                   = Some (Inr \<lparr>iteration = 2000, convergence_check = True\<rparr>)"
        by (subst while_loop.simps) simp
      with step show ?thesis by simp
    next
      case F: False
      with Suc.prems have lt: "iteration (loop_pass env s) < 2000"
        and nc: "\<not> convergence_check (loop_pass env s)"
        and m: "nat (2000 - iteration (loop_pass env s)) = n"
        by (simp_all add: loop_pass_iteration loop_pass_check)
      from Suc.IH[OF m lt nc] show ?thesis
      proof
        assume "while_loop env (loop_pass env s) = Some (Inl SystemExit) \<and>
           (\<exists>i. iteration (loop_pass env s) \<le> i \<and> i < 2000 \<and> routine_exits env i)"
        then obtain i where w: "while_loop env (loop_pass env s) = Some (Inl SystemExit)"
          and i: "iteration (loop_pass env s) \<le> i" "i < 2000" "routine_exits env i"
          by blast
        from i(1) have "iteration s \<le> i" by (simp add: loop_pass_iteration)
        with w i step show ?thesis by auto
      next
        assume "while_loop env (loop_pass env s)
                  = Some (Inr \<lparr>iteration = 2000, convergence_check = True\<rparr>)"
        with step show ?thesis by simp
      qed
    qed
  qed
qed

text \<open>
  Claim C10, as amended. Entered with the iteration counter below 2000, the loop always
  ends: either a collaborator ends the process in some pass, or the loop is stopped when
  the counter is 2000, so that it makes at most \<open>2000 - iteration\<close> passes. Each pass
  adds one to the counter, and the flag that stops the loop is set exactly when the
  counter is above 2 and above 2000 with a residual at most \<open>berg_criteria\<close>, or the
  counter is 2000.
\<close>

theorem loop_terminates:
  assumes "iteration s < 2000"
  shows "(iterative_method env s = Some (Inl SystemExit) \<and>
            (\<exists>i. iteration s \<le> i \<and> i < 2000 \<and> routine_exits env i) \<or>
          iterative_method env s = Some (Inr \<lparr>iteration = 2000, convergence_check = True\<rparr>)) \<and>
         iteration (loop_pass env t) = iteration t + 1 \<and>
         (convergence_check (loop_pass env t) \<longleftrightarrow>
            (iteration t + 1 > 2 \<and> residual_berg env (iteration t + 1) \<le> berg_criteria env \<and>
             iteration t + 1 > 2000) \<or> iteration t + 1 = 2000)"
  using while_loop_capped[of "s\<lparr>convergence_check := False\<rparr>" _ env] assms
  by (simp add: iterative_method_def loop_pass_iteration loop_pass_check)

text \<open>
  A run from the counter 0 whose residual is below the criterion in every pass: it is
  stopped at 2000 all the same, the test for convergence asking for a counter above 2000.
\<close>

theorem loop_terminates_witness:
  "iterative_method \<lparr>routine_exits = (\<lambda>i. False), residual_berg = (\<lambda>i. 0), berg_criteria = 1\<rparr>
     \<lparr>iteration = 0, convergence_check = False\<rparr>
   = Some (Inr \<lparr>iteration = 2000, convergence_check = True\<rparr>)"
  using loop_terminates[of "\<lparr>iteration = 0, convergence_check = False\<rparr>"
      "\<lparr>routine_exits = (\<lambda>i. False), residual_berg = (\<lambda>i. 0), berg_criteria = 1\<rparr>"]
  by simp

lemma while_loop_beyond_cap:
  assumes "while_loop env s = Some r"
    and "\<forall>i. \<not> routine_exits env i \<and> berg_criteria env < residual_berg env i"
  shows "\<not> (2000 \<le> iteration s \<and> \<not> convergence_check s)"
proof -
  have "(\<forall>i. \<not> routine_exits env i \<and> berg_criteria env < residual_berg env i) \<longrightarrow>
          \<not> (2000 \<le> iteration s \<and> \<not> convergence_check s)"
  proof (rule while_loop.raw_induct[where P = "\<lambda>env s r.
          (\<forall>i. \<not> routine_exits env i \<and> berg_criteria env < residual_berg env i) \<longrightarrow>
          \<not> (2000 \<le> iteration s \<and> \<not> convergence_check s)", OF _ assms(1)])
    fix wl :: "loop_env \<Rightarrow> loop_state \<Rightarrow> (error + loop_state) option" and env s r
    assume ih: "\<And>env s r. wl env s = Some r \<Longrightarrow>
          (\<forall>i. \<not> routine_exits env i \<and> berg_criteria env < residual_berg env i) \<longrightarrow>
          \<not> (2000 \<le> iteration s \<and> \<not> convergence_check s)"
      and eq: "(if convergence_check s then Some (Inr s)
                else if routine_exits env (iteration s) then Some (Inl SystemExit)
                else wl env (loop_pass env s)) = Some r"
    show "(\<forall>i. \<not> routine_exits env i \<and> berg_criteria env < residual_berg env i) \<longrightarrow>
          \<not> (2000 \<le> iteration s \<and> \<not> convergence_check s)"
    proof (intro impI notI)
      assume e: "\<forall>i. \<not> routine_exits env i \<and> berg_criteria env < residual_berg env i"
        and a: "2000 \<le> iteration s \<and> \<not> convergence_check s"
      with eq have w: "wl env (loop_pass env s) = Some r" by simp
      from a e have "2000 \<le> iteration (loop_pass env s) \<and> \<not> convergence_check (loop_pass env s)"
        by (auto simp: loop_pass_iteration loop_pass_check not_le)
      with ih[OF w] e show False by blast
    qed
  qed
  with assms(2) show ?thesis by blast
qed

text \<open>
  Claim C10 as stated fails. Entered again with the counter at 2000, where a stopped run
  has left it, and with a residual that stays above the criterion, the loop never ends:
  the counter is past the one value at which the loop is stopped.
\<close>

theorem loop_terminates_counterexample:
  "iterative_method \<lparr>routine_exits = (\<lambda>i. False), residual_berg = (\<lambda>i. 1), berg_criteria = 0\<rparr>
     \<lparr>iteration = 2000, convergence_check = True\<rparr> = None"
proof (cases "iterative_method \<lparr>routine_exits = (\<lambda>i. False), residual_berg = (\<lambda>i. 1), berg_criteria = 0\<rparr>
     \<lparr>iteration = 2000, convergence_check = True\<rparr>")
  case None
  then show ?thesis .
next
  case (Some r)
  from while_loop_beyond_cap[OF Some[unfolded iterative_method_def]] show ?thesis by simp
qed

end
